theory Spec2Isabelle
  imports Main "HOL-Library.Sublist"
begin

section \<open>Messages, exceptions and the broker\<close>

text \<open>
  The two services talk to a RabbitMQ broker through the pika client library. The
  library and the broker are not part of the repository: they are the environment of the
  code. Their state is the record \<open>world\<close> below, threaded through every function of
  the model; what the environment decides (whether a connection attempt succeeds, whether
  the transport breaks during a call, which identifier \<open>uuid.uuid4()\<close> draws, which
  messages a call of \<open>process_data_events\<close> dispatches) is read from oracles stored in it.

  \<open>json.dumps\<close> and \<open>json.loads\<close> belong to Python's standard library. They are
  parameters \<open>dumps\<close> and \<open>loads\<close> of the functions that call them; the type \<open>'b\<close> is the
  type of message bodies. The type \<open>json\<close> is the type of the Python values handed to
  \<open>json.dumps\<close> and returned by \<open>json.loads\<close>: \<open>None\<close>, booleans, integers, strings,
  lists, tuples and dicts with string keys (in insertion order). Floating point numbers
  are left out.
\<close>

datatype json =
    JNull
  | JBool bool
  | JInt int
  | JStr string
  | JArr "json list"
  | JTuple "json list"
  | JObj "(string \<times> json) list"

text \<open>Exceptions, by class, with the arguments the model gives them.
  \<open>TransportError\<close> stands for the classes pika raises when the connection to the broker
  is lost during a call (\<open>StreamLostError\<close> and its like).\<close>

datatype exn =
    AMQPConnectionError
  | ChannelClosedByBroker nat string
  | ChannelWrongStateError string
  | ConnectionWrongStateError string
  | TransportError string
  | JSONDecodeError
  | AttributeError string
  | TypeError string

text \<open>What \<open>print\<close> writes: a literal text, or a literal text followed by \<open>str(err)\<close> for
  an exception \<open>err\<close>, as the f-string \<open>f"Failed to publish message: {err}"\<close> gives it.
  The text of \<open>str(err)\<close> is the exception class's own and is not modelled.\<close>

datatype printed =
    Text string
  | TextExn string exn

text \<open>\<open>pika.BasicProperties\<close>: the three fields the code sets; each is \<open>None\<close> by default.\<close>

record properties =
  reply_to :: "string option"
  correlation_id :: "string option"
  delivery_mode :: "nat option"

definition BasicProperties :: properties where
  "BasicProperties = \<lparr>reply_to = None, correlation_id = None, delivery_mode = None\<rparr>"

definition PERSISTENT_DELIVERY_MODE :: nat where
  "PERSISTENT_DELIVERY_MODE = 2"

record 'b message =
  exchange :: string
  routing_key :: string
  props :: properties
  body :: "'b"

record 'b queue =
  durable :: bool
  exclusive :: bool
  messages :: "'b message list"

text \<open>The calls the code makes on a pika connection or channel.\<close>

datatype 'b op =
    OpenChannel
  | QueueDeclare string bool bool bool
      \<comment> \<open>\<open>queue_declare(queue, passive, durable, exclusive)\<close>\<close>
  | QueueDelete string
  | BasicConsume string
  | BasicPublish "'b message"
  | ChannelClose
  | ConnectionClose

text \<open>What one call of \<open>process_data_events\<close> does: it hands the deliveries that are ready
  to the consumer callback, in order, or raises because the connection is gone.\<close>

datatype 'b event =
    Dispatch "(properties \<times> 'b) list"
  | Dropped exn

record 'b world =
  queues :: "string \<Rightarrow> 'b queue option"
  generated :: "string"
    \<comment> \<open>the name the broker gives a queue declared with the empty name\<close>
  connection_open :: bool
  channel_open :: bool
    \<comment> \<open>the state of the process's \<open>BlockingConnection\<close> and of its channel\<close>
  faults :: "'b op \<Rightarrow> exn option"
    \<comment> \<open>the exception with which the transport fails during a call, if it does\<close>
  attempts :: "nat \<Rightarrow> exn option"
    \<comment> \<open>the exception the n-th \<open>pika.BlockingConnection(...)\<close> raises; \<open>None\<close> when it
        succeeds\<close>
  tries :: nat
  uuid4 :: "nat \<Rightarrow> string"
  drawn :: nat
  events :: "nat \<Rightarrow> 'b event"
  polls :: nat
  stdout :: "printed list"
  slept :: nat
  trace :: "'b op list"

text \<open>
  The broker's side of a call, after AMQP 0-9-1: a passive declare only checks that the
  queue exists (404 otherwise); a declare creates the queue or, when it exists, compares
  the parameters (406 on a difference); the default exchange routes a message to the
  queue named by its routing key and drops it when there is none. A 404 or a 406 is a
  channel error: the broker closes the channel.
\<close>

definition amqp :: "'b op \<Rightarrow> 'b world \<Rightarrow> (exn + string) \<times> 'b world" where
  "amqp c w =
     (case c of
        QueueDeclare q passive dur excl \<Rightarrow>
          (let name = (if q = [] then generated w else q) in
           case queues w name of
             None \<Rightarrow>
               if passive
               then (Inl (ChannelClosedByBroker 404 ''NOT_FOUND''), w\<lparr>channel_open := False\<rparr>)
               else (Inr name,
                     w\<lparr>queues := (queues w)(name \<mapsto>
                          \<lparr>durable = dur, exclusive = excl, messages = []\<rparr>)\<rparr>)
           | Some qu \<Rightarrow>
               if passive \<or> (durable qu = dur \<and> exclusive qu = excl) then (Inr name, w)
               else (Inl (ChannelClosedByBroker 406 ''PRECONDITION_FAILED''),
                     w\<lparr>channel_open := False\<rparr>))
      | QueueDelete q \<Rightarrow> (Inr [], w\<lparr>queues := (queues w)(q := None)\<rparr>)
      | BasicConsume q \<Rightarrow>
          (case queues w q of
             None \<Rightarrow> (Inl (ChannelClosedByBroker 404 ''NOT_FOUND''), w\<lparr>channel_open := False\<rparr>)
           | Some qu \<Rightarrow> (Inr [], w))
      | BasicPublish m \<Rightarrow>
          (case queues w (routing_key m) of
             None \<Rightarrow> (Inr [], w)
           | Some qu \<Rightarrow>
               (Inr [], w\<lparr>queues := (queues w)(routing_key m \<mapsto>
                           qu\<lparr>messages := messages qu @ [m]\<rparr>)\<rparr>))
      | OpenChannel \<Rightarrow> (Inr [], w\<lparr>channel_open := True\<rparr>)
      | ChannelClose \<Rightarrow> (Inr [], w\<lparr>channel_open := False\<rparr>)
      | ConnectionClose \<Rightarrow> (Inr [], w\<lparr>channel_open := False, connection_open := False\<rparr>))"

text \<open>
  A call through pika. \<open>connection.channel()\<close> and \<open>connection.close()\<close> need an open
  connection, every other call an open channel: on a closed one pika raises
  \<open>ConnectionWrongStateError\<close> or \<open>ChannelWrongStateError\<close> and sends nothing. Otherwise
  either the transport fails with the exception the oracle names, which closes the
  connection and its channel, or the broker executes the call.
\<close>

definition usable :: "'b op \<Rightarrow> 'b world \<Rightarrow> bool" where
  "usable c w =
     (case c of
        OpenChannel \<Rightarrow> connection_open w
      | ConnectionClose \<Rightarrow> connection_open w
      | _ \<Rightarrow> channel_open w)"

definition wrong_state :: "'b op \<Rightarrow> exn" where
  "wrong_state c =
     (case c of
        OpenChannel \<Rightarrow> ConnectionWrongStateError ''Connection is closed.''
      | ConnectionClose \<Rightarrow> ConnectionWrongStateError ''Connection is closed.''
      | _ \<Rightarrow> ChannelWrongStateError ''Channel is closed.'')"

definition invoke :: "'b op \<Rightarrow> 'b world \<Rightarrow> (exn + string) \<times> 'b world" where
  "invoke c w =
     (let w1 = w\<lparr>trace := trace w @ [c]\<rparr> in
      if \<not> usable c w then (Inl (wrong_state c), w1)
      else case faults w c of
             Some e \<Rightarrow> (Inl e, w1\<lparr>channel_open := False, connection_open := False\<rparr>)
           | None \<Rightarrow> amqp c w1)"

definition print :: "printed \<Rightarrow> 'b world \<Rightarrow> 'b world" where
  "print line w = w\<lparr>stdout := stdout w @ [line]\<rparr>"

definition sleep :: "nat \<Rightarrow> 'b world \<Rightarrow> 'b world" where
  "sleep secs w = w\<lparr>slept := slept w + secs\<rparr>"

text \<open>\<open>pika.BlockingConnection(...)\<close>: one connection attempt. It returns a new, open
  connection (identified by the number of the attempt) or raises what the oracle names:
  \<open>AMQPConnectionError\<close> when the broker cannot be reached, another class otherwise (a
  \<open>TypeError\<close> when \<open>RABBITMQ_URL\<close> is unset).\<close>

definition BlockingConnection :: "'b world \<Rightarrow> (exn + nat) \<times> 'b world" where
  "BlockingConnection w =
     (case attempts w (tries w) of
        None \<Rightarrow>
          (Inr (tries w),
           w\<lparr>tries := Suc (tries w), connection_open := True, channel_open := False\<rparr>)
      | Some e \<Rightarrow> (Inl e, w\<lparr>tries := Suc (tries w)\<rparr>))"

section \<open>auth/service.py\<close>

subsection \<open>connect_to_rabbitmq\<close>

text \<open>
  \<^verbatim>\<open>
  def connect_to_rabbitmq():
      while True:
          try:
              connection = pika.BlockingConnection(pika.ConnectionParameters(RABBITMQ_URL))
              return connection
          except pika.exceptions.AMQPConnectionError:
              print("Failed to connect to RabbitMQ. Retrying in 5 seconds...")
              time.sleep(5)
  \<close>
  The loop has no exit but the \<open>return\<close>; a run that never returns is the value \<open>None\<close>.
  An exception of another class than \<open>AMQPConnectionError\<close> is not caught and leaves the
  function.
\<close>

partial_function (option) connect_to_rabbitmq ::
  "'b world \<Rightarrow> ((exn + nat) \<times> 'b world) option" where
  "connect_to_rabbitmq w =
     (case BlockingConnection w of
        (Inr connection, w1) \<Rightarrow> Some (Inr connection, w1)
      | (Inl AMQPConnectionError, w1) \<Rightarrow>
          connect_to_rabbitmq
            (sleep 5
               (print (Text ''Failed to connect to RabbitMQ. Retrying in 5 seconds...'') w1))
      | (Inl e, w1) \<Rightarrow> Some (Inl e, w1))"


subsection \<open>send_otp\<close>

text \<open>Sequencing of calls that may raise: the first exception ends the sequence.\<close>

definition and_then ::
  "('w \<Rightarrow> (exn + 'a) \<times> 'w) \<Rightarrow> ('a \<Rightarrow> 'w \<Rightarrow> (exn + 'c) \<times> 'w) \<Rightarrow> 'w \<Rightarrow> (exn + 'c) \<times> 'w" where
  "and_then m f w = (case m w of (Inl e, w1) \<Rightarrow> (Inl e, w1) | (Inr a, w1) \<Rightarrow> f a w1)"

definition return :: "'a \<Rightarrow> 'w \<Rightarrow> (exn + 'a) \<times> 'w" where
  "return a w = (Inr a, w)"

text \<open>
  \<^verbatim>\<open>
  message = {'email': email,
             'subject': 'Account Verification OTP Notification',
             'other': 'null',
             'body': f'Your OTP for account verification is: {otp} \n Please enter ...'}
  \<close>
  \<open>otp\<close> is the string \<open>generate_otp\<close> returns; \<open>CHR 0x0A\<close> is the line feed.
\<close>

definition otp_body :: "string \<Rightarrow> string" where
  "otp_body otp =
     ''Your OTP for account verification is: '' @ otp @ '' '' @ [CHR 0x0A] @
     '' Please enter this OTP on the verification page to complete your account setup. '' @
     [CHR 0x0A] @
     '' If you did not request this OTP, please ignore this message.'' @ [CHR 0x0A] @
     '' Thank you ''"

definition otp_message :: "string \<Rightarrow> string \<Rightarrow> json" where
  "otp_message email otp =
     JObj [(''email'', JStr email),
           (''subject'', JStr ''Account Verification OTP Notification''),
           (''other'', JStr ''null''),
           (''body'', JStr (otp_body otp))]"

definition notification :: "(json \<Rightarrow> 'b) \<Rightarrow> json \<Rightarrow> 'b message" where
  "notification dumps message =
     \<lparr>exchange = [], routing_key = ''email_notification'',
      props = BasicProperties\<lparr>delivery_mode := Some PERSISTENT_DELIVERY_MODE\<rparr>,
      body = dumps message\<rparr>"

text \<open>
  The body of the \<open>try\<close> statement.
  \<^verbatim>\<open>
  queue_declare_ok = channel.queue_declare(queue='email_notification', passive=True)
  current_durable = queue_declare_ok.method.queue
  if current_durable:
      if queue_declare_ok.method.queue != current_durable:
          channel.queue_delete(queue='email_notification')
          channel.queue_declare(queue='email_notification', durable=True)
  else:
      channel.queue_declare(queue='email_notification', durable=True)
  channel.basic_publish(exchange="", routing_key='email_notification',
      body=json.dumps(message),
      properties=pika.BasicProperties(delivery_mode=pika.spec.PERSISTENT_DELIVERY_MODE))
  print("Sent OTP email notification")
  \<close>
  \<open>invoke\<close> of a declare returns \<open>method.queue\<close>, the name of the queue; a string is
  true when it is not empty.
\<close>

definition send_otp_try :: "(json \<Rightarrow> 'b) \<Rightarrow> json \<Rightarrow> 'b world \<Rightarrow> (exn + unit) \<times> 'b world" where
  "send_otp_try dumps message =
     and_then (invoke (QueueDeclare ''email_notification'' True False False))
       (\<lambda>method_queue.
          let current_durable = method_queue in
          and_then
            (if current_durable \<noteq> [] then
               (if method_queue \<noteq> current_durable then
                  and_then (invoke (QueueDelete ''email_notification''))
                    (\<lambda>_. invoke (QueueDeclare ''email_notification'' False True False))
                else return [])
             else invoke (QueueDeclare ''email_notification'' False True False))
            (\<lambda>_. and_then (invoke (BasicPublish (notification dumps message)))
                    (\<lambda>_ w. (Inr (), print (Text ''Sent OTP email notification'') w))))"

text \<open>
  \<^verbatim>\<open>
  def send_otp(email, otp, channel):
      connection = connect_to_rabbitmq()
      channel = connection.channel()
      message = ...
      try: ...
      except Exception as err:
          print(f"Failed to publish message: {err}")
      finally:
          channel.close()
          connection.close()
  \<close>
  The function returns \<open>None\<close> (here \<open>Inr ()\<close>) unless \<open>connection.channel()\<close> or one of
  the two calls of the \<open>finally\<close> clause raises.
\<close>

definition send_otp ::
  "(json \<Rightarrow> 'b) \<Rightarrow> string \<Rightarrow> string \<Rightarrow> 'c \<Rightarrow> 'b world \<Rightarrow> ((exn + unit) \<times> 'b world) option" where
  "send_otp dumps email otp channel w =
     (case connect_to_rabbitmq w of
        None \<Rightarrow> None
      | Some (Inl e, w1) \<Rightarrow> Some (Inl e, w1)
      | Some (Inr connection, w1) \<Rightarrow>
          Some (case invoke OpenChannel w1 of
                  (Inl e, w2) \<Rightarrow> (Inl e, w2)
                | (Inr channel1, w2) \<Rightarrow>
                    (let message = otp_message email otp;
                         (r, w3) = send_otp_try dumps message w2;
                         w4 = (case r of
                                 Inl err \<Rightarrow> print (TextExn ''Failed to publish message: '' err) w3
                               | Inr _ \<Rightarrow> w3)
                     in and_then (invoke ChannelClose)
                          (\<lambda>_. and_then (invoke ConnectionClose) (\<lambda>_. return ())) w4)))"

section \<open>gateway/rpc_client.py\<close>

text \<open>
  The attributes of an \<open>OcrRpcClient\<close>. \<open>__init__\<close> sets \<open>callback_queue\<close> only:
  \<open>corr_id = None\<close> stands for the attribute that \<open>call\<close> has not set yet, and reading it
  then raises \<open>AttributeError\<close>. \<open>response = None\<close> is Python's \<open>None\<close>.
\<close>

record 'b client =
  callback_queue :: string
  response :: "'b option"
  corr_id :: "string option"

text \<open>
  \<^verbatim>\<open>
  def __init__(self):
      self.connection = pika.BlockingConnection(pika.ConnectionParameters(host=RABBITMQ_URL))
      self.channel = self.connection.channel()
      result = self.channel.queue_declare(queue='', exclusive=True)
      self.callback_queue = result.method.queue
      self.channel.basic_consume(queue=self.callback_queue,
          on_message_callback=self.on_response, auto_ack=True)
  \<close>
\<close>

definition OcrRpcClient :: "'b world \<Rightarrow> (exn + 'b client) \<times> 'b world" where
  "OcrRpcClient =
     and_then BlockingConnection
       (\<lambda>connection. and_then (invoke OpenChannel)
          (\<lambda>channel. and_then (invoke (QueueDeclare [] False False True))
             (\<lambda>result. and_then (invoke (BasicConsume result))
                (\<lambda>_. return \<lparr>callback_queue = result, response = None, corr_id = None\<rparr>))))"

text \<open>
  \<^verbatim>\<open>
  def on_response(self, ch, method, properties, body):
      if self.corr_id == properties.correlation_id:
          self.response = body
  \<close>
\<close>

definition on_response :: "'b client \<Rightarrow> properties \<Rightarrow> 'b \<Rightarrow> (exn + unit) \<times> 'b client" where
  "on_response self properties reply_body =
     (case corr_id self of
        None \<Rightarrow> (Inl (AttributeError ''corr_id''), self)
      | Some c \<Rightarrow>
          if Some c = correlation_id properties
          then (Inr (), self\<lparr>response := Some reply_body\<rparr>)
          else (Inr (), self))"

text \<open>The library calls the consumer callback once for each delivery of a batch.\<close>

fun dispatch :: "'b client \<Rightarrow> (properties \<times> 'b) list \<Rightarrow> (exn + unit) \<times> 'b client" where
  "dispatch self [] = (Inr (), self)"
| "dispatch self ((properties, reply_body) # ds) =
     (case on_response self properties reply_body of
        (Inl e, self1) \<Rightarrow> (Inl e, self1)
      | (Inr _, self1) \<Rightarrow> dispatch self1 ds)"

definition process_data_events ::
  "'b client \<Rightarrow> 'b world \<Rightarrow> (exn + unit) \<times> 'b client \<times> 'b world" where
  "process_data_events self w =
     (let w1 = w\<lparr>polls := Suc (polls w)\<rparr> in
      case events w (polls w) of
        Dropped e \<Rightarrow> (Inl e, self, w1)
      | Dispatch ds \<Rightarrow> (case dispatch self ds of (r, self1) \<Rightarrow> (r, self1, w1)))"

text \<open>
  \<^verbatim>\<open>
  while self.response is None:
      self.connection.process_data_events()
  \<close>
\<close>

partial_function (option) wait ::
  "'b client \<Rightarrow> 'b world \<Rightarrow> ((exn + unit) \<times> 'b client \<times> 'b world) option" where
  "wait self w =
     (case response self of
        Some b \<Rightarrow> Some (Inr (), self, w)
      | None \<Rightarrow>
          (case process_data_events self w of
             (Inl e, self1, w1) \<Rightarrow> Some (Inl e, self1, w1)
           | (Inr _, self1, w1) \<Rightarrow> wait self1 w1))"

definition request :: "(json \<Rightarrow> 'b) \<Rightarrow> 'b client \<Rightarrow> json \<Rightarrow> 'b message" where
  "request dumps self image_data =
     \<lparr>exchange = [], routing_key = ''ocr_service'',
      props = BasicProperties\<lparr>reply_to := Some (callback_queue self),
                              correlation_id := corr_id self\<rparr>,
      body = dumps (JObj [(''image_data'', image_data)])\<rparr>"

text \<open>
  \<^verbatim>\<open>
  def call(self, image_data):
      self.response = None
      self.corr_id = str(uuid.uuid4())
      self.channel.basic_publish(exchange = '', routing_key = 'ocr_service',
          properties = pika.BasicProperties(reply_to = self.callback_queue,
                                            correlation_id = self.corr_id),
          body = json.dumps({'image_data': image_data}))
      while self.response is None:
          self.connection.process_data_events()
      return json.loads(self.response)
  \<close>
  \<open>loads\<close> returns \<open>None\<close> where \<open>json.loads\<close> raises \<open>JSONDecodeError\<close>.
\<close>

definition call ::
  "(json \<Rightarrow> 'b) \<Rightarrow> ('b \<Rightarrow> json option) \<Rightarrow> json \<Rightarrow> 'b client \<Rightarrow> 'b world \<Rightarrow>
     ((exn + json) \<times> 'b client \<times> 'b world) option" where
  "call dumps loads image_data self w =
     (let self1 = self\<lparr>response := None\<rparr>;
          self2 = self1\<lparr>corr_id := Some (uuid4 w (drawn w))\<rparr>;
          w1 = w\<lparr>drawn := Suc (drawn w)\<rparr>
      in case invoke (BasicPublish (request dumps self2 image_data)) w1 of
           (Inl e, w2) \<Rightarrow> Some (Inl e, self2, w2)
         | (Inr _, w2) \<Rightarrow>
             (case wait self2 w2 of
                None \<Rightarrow> None
              | Some (Inl e, self3, w3) \<Rightarrow> Some (Inl e, self3, w3)
              | Some (Inr _, self3, w3) \<Rightarrow>
                  (case response self3 of
                     None \<Rightarrow> Some (Inl (TypeError ''NoneType''), self3, w3)
                   | Some b \<Rightarrow>
                       (case loads b of
                          None \<Rightarrow> Some (Inl JSONDecodeError, self3, w3)
                        | Some v \<Rightarrow> Some (Inr v, self3, w3)))))"

section \<open>The JSON codec and the stub worker\<close>

text \<open>
  Python's \<open>json\<close> module, with the text of a message body identified with the JSON
  document it denotes. \<open>json.dumps\<close> writes lists and tuples alike as arrays and a dict as
  an object, in insertion order; \<open>json.loads\<close> reads an array as a list and an object as a
  dict, a repeated key keeping its first position and its last value.
\<close>

datatype document =
    DNull
  | DBool bool
  | DNum int
  | DStr string
  | DArr "document list"
  | DObj "(string \<times> document) list"

primrec json_dumps :: "json \<Rightarrow> document" where
  "json_dumps JNull = DNull"
| "json_dumps (JBool b) = DBool b"
| "json_dumps (JInt i) = DNum i"
| "json_dumps (JStr s) = DStr s"
| "json_dumps (JArr xs) = DArr (map json_dumps xs)"
| "json_dumps (JTuple xs) = DArr (map json_dumps xs)"
| "json_dumps (JObj items) = DObj (map (map_prod id json_dumps) items)"

fun dict_set :: "string \<Rightarrow> 'v \<Rightarrow> (string \<times> 'v) list \<Rightarrow> (string \<times> 'v) list" where
  "dict_set k v [] = [(k, v)]"
| "dict_set k v ((k1, v1) # d) = (if k = k1 then (k, v) # d else (k1, v1) # dict_set k v d)"

definition dict :: "(string \<times> 'v) list \<Rightarrow> (string \<times> 'v) list" where
  "dict pairs = foldl (\<lambda>d (k, v). dict_set k v d) [] pairs"

primrec loads_document :: "document \<Rightarrow> json" where
  "loads_document DNull = JNull"
| "loads_document (DBool b) = JBool b"
| "loads_document (DNum i) = JInt i"
| "loads_document (DStr s) = JStr s"
| "loads_document (DArr xs) = JArr (map loads_document xs)"
| "loads_document (DObj items) = JObj (dict (map (map_prod id loads_document) items))"

definition json_loads :: "document \<Rightarrow> json option" where
  "json_loads d = Some (loads_document d)"

text \<open>The values that the codec gives back as they were: no tuple anywhere, and in every
  dict no key twice (as in every Python dict).\<close>

primrec native :: "json \<Rightarrow> bool" where
  "native JNull = True"
| "native (JBool b) = True"
| "native (JInt i) = True"
| "native (JStr s) = True"
| "native (JArr xs) = list_all id (map native xs)"
| "native (JTuple xs) = False"
| "native (JObj items) =
     (distinct (map fst items) \<and> list_all snd (map (map_prod id native) items))"

text \<open>
  Modelled from the spec: the worker is an external collaborator, and the round-trip
  property names a stub worker that echoes the payload. After the worker queue contract,
  the stub decodes the body of the request it consumes, takes the value under
  \<open>image_data\<close> and publishes its encoding to the queue named by the request's
  \<open>reply_to\<close>, copying the request's correlation id. The result is the queue and the
  delivery; there is none when the request is no such object or names no reply queue.
\<close>

definition stub_worker ::
  "(json \<Rightarrow> 'b) \<Rightarrow> ('b \<Rightarrow> json option) \<Rightarrow> 'b message \<Rightarrow> (string \<times> properties \<times> 'b) option" where
  "stub_worker dumps loads m =
     (case loads (body m) of
        Some (JObj items) \<Rightarrow>
          (case (map_of items ''image_data'', reply_to (props m)) of
             (Some payload, Some q) \<Rightarrow>
               Some (q, BasicProperties\<lparr>correlation_id := correlation_id (props m)\<rparr>,
                     dumps payload)
           | _ \<Rightarrow> None)
      | _ \<Rightarrow> None)"

section \<open>Auxiliary definitions\<close>

text \<open>The world after one refused connection attempt, and after \<open>k\<close> of them.\<close>

definition retry :: "'b world \<Rightarrow> 'b world" where
  "retry w = sleep 5 (print (Text ''Failed to connect to RabbitMQ. Retrying in 5 seconds...'')
                 (w\<lparr>tries := Suc (tries w)\<rparr>))"

definition after_retries :: "nat \<Rightarrow> 'b world \<Rightarrow> 'b world" where
  "after_retries k w =
     w\<lparr>tries := tries w + k,
       stdout := stdout w @
         replicate k (Text ''Failed to connect to RabbitMQ. Retrying in 5 seconds...''),
       slept := slept w + 5 * k\<rparr>"

text \<open>A connection attempt that the loop answers with a retry.\<close>

definition refused :: "'b world \<Rightarrow> nat \<Rightarrow> bool" where
  "refused w n \<longleftrightarrow> attempts w n = Some AMQPConnectionError"

text \<open>What the loop returns when attempt number \<open>k\<close> from now is the first that is not
  refused.\<close>

definition landing :: "nat \<Rightarrow> 'b world \<Rightarrow> (exn + nat) \<times> 'b world" where
  "landing k w =
     (case attempts w (tries w + k) of
        None \<Rightarrow>
          (Inr (tries w + k),
           (after_retries k w)\<lparr>tries := Suc (tries w + k),
                                 connection_open := True, channel_open := False\<rparr>)
      | Some e \<Rightarrow> (Inl e, (after_retries k w)\<lparr>tries := Suc (tries w + k)\<rparr>))"

text \<open>A world for concrete runs: no queue, no connection yet, every connection attempt
  accepted, no fault, nothing ever delivered.\<close>

definition idle :: "'b world" where
  "idle =
     \<lparr>queues = Map.empty, generated = ''amq.gen-1'',
      connection_open = False, channel_open = False, faults = (\<lambda>_. None),
      attempts = (\<lambda>_. None), tries = 0,
      uuid4 = (\<lambda>n. ''uuid-'' @ replicate n (CHR ''i'')), drawn = 0,
      events = (\<lambda>_. Dispatch []), polls = 0, stdout = [], slept = 0, trace = []\<rparr>"

text \<open>A world in which \<open>RABBITMQ_URL\<close> is unset: every connection attempt raises
  \<open>TypeError\<close>.\<close>

definition unconfigured :: "'b world" where
  "unconfigured = idle\<lparr>attempts := (\<lambda>n. Some (TypeError ''host''))\<rparr>"

text \<open>The messages handed to \<open>basic_publish\<close>, in the order of the calls.\<close>

fun publishes :: "'b op list \<Rightarrow> 'b message list" where
  "publishes [] = []"
| "publishes (BasicPublish m # cs) = m # publishes cs"
| "publishes (c # cs) = publishes cs"

text \<open>The first call of the \<open>try\<close> block, and the condition under which the block gets
  as far as \<open>basic_publish\<close>: the channel opens, the transport carries the passive declare
  and the queue exists.\<close>

definition passive_declare :: "'b op" where
  "passive_declare = QueueDeclare ''email_notification'' True False False"

definition reaches_publish :: "'b world \<Rightarrow> bool" where
  "reaches_publish w \<longleftrightarrow>
     faults w OpenChannel = None \<and> faults w passive_declare = None \<and>
     queues w ''email_notification'' \<noteq> None"

text \<open>\<open>send_otp\<close> from \<open>connection.channel()\<close> on, and what its \<open>finally\<close> clause
  returns or raises, given the fault oracle.\<close>

definition after_connect ::
  "(json \<Rightarrow> 'b) \<Rightarrow> string \<Rightarrow> string \<Rightarrow> 'b world \<Rightarrow> (exn + unit) \<times> 'b world" where
  "after_connect dumps email otp w1 =
     (case invoke OpenChannel w1 of
        (Inl e, w2) \<Rightarrow> (Inl e, w2)
      | (Inr channel1, w2) \<Rightarrow>
          (let message = otp_message email otp;
               (r, w3) = send_otp_try dumps message w2;
               w4 = (case r of
                       Inl err \<Rightarrow> print (TextExn ''Failed to publish message: '' err) w3
                     | Inr _ \<Rightarrow> w3)
           in and_then (invoke ChannelClose)
                (\<lambda>_. and_then (invoke ConnectionClose) (\<lambda>_. return ())) w4))"

definition closing_result :: "('b op \<Rightarrow> exn option) \<Rightarrow> exn + unit" where
  "closing_result fs =
     (case fs ChannelClose of
        Some e \<Rightarrow> Inl e
      | None \<Rightarrow> (case fs ConnectionClose of Some e \<Rightarrow> Inl e | None \<Rightarrow> Inr ()))"

text \<open>Worlds in which the notification queue exists: durable; not durable, as the
  \<open>lifespan\<close> handler of \<open>auth/main.py\<close> declares it; and durable behind a transport
  that breaks at every \<open>basic_publish\<close>.\<close>

definition provisioned :: "'b world" where
  "provisioned =
     idle\<lparr>queues := [''email_notification'' \<mapsto>
                        \<lparr>durable = True, exclusive = False, messages = []\<rparr>]\<rparr>"

definition legacy :: "'b world" where
  "legacy =
     idle\<lparr>queues := [''email_notification'' \<mapsto>
                        \<lparr>durable = False, exclusive = False, messages = []\<rparr>]\<rparr>"

definition lossy :: "'b world" where
  "lossy =
     provisioned\<lparr>faults := (\<lambda>c. case c of
                                  BasicPublish m \<Rightarrow> Some (TransportError ''Stream connection lost'')
                                | _ \<Rightarrow> None)\<rparr>"

text \<open>The bodies of the deliveries of a batch that carry the correlation id \<open>c\<close>, in
  order; a poll is silent for \<open>c\<close> when it dispatches none of them and does not raise.\<close>

fun matching :: "string \<Rightarrow> (properties \<times> 'b) list \<Rightarrow> 'b list" where
  "matching c [] = []"
| "matching c ((p, b) # ds) =
     (if correlation_id p = Some c then b # matching c ds else matching c ds)"

fun silent :: "string \<Rightarrow> 'b event \<Rightarrow> bool" where
  "silent c (Dispatch ds) \<longleftrightarrow> matching c ds = []"
| "silent c (Dropped e) \<longleftrightarrow> False"

text \<open>What the waiting loop returns when poll number \<open>k\<close> from now is the first that is
  not silent.\<close>

definition settle ::
  "string \<Rightarrow> 'b client \<Rightarrow> 'b world \<Rightarrow> nat \<Rightarrow> (exn + unit) \<times> 'b client \<times> 'b world" where
  "settle c self w k =
     (case events w (polls w + k) of
        Dispatch ds \<Rightarrow>
          (Inr (), self\<lparr>response := Some (last (matching c ds))\<rparr>, w\<lparr>polls := Suc (polls w + k)\<rparr>)
      | Dropped e \<Rightarrow> (Inl e, self, w\<lparr>polls := Suc (polls w + k)\<rparr>))"

text \<open>The client after the first two assignments of \<open>call\<close>, and the world after its
  \<open>basic_publish\<close>.\<close>

definition armed :: "'b client \<Rightarrow> 'b world \<Rightarrow> 'b client" where
  "armed self w = self\<lparr>response := None, corr_id := Some (uuid4 w (drawn w))\<rparr>"

text \<open>The exception that \<open>basic_publish\<close> raises in \<open>call\<close>, if it raises: the channel
  is closed, or the transport fails.\<close>

definition unsent :: "(json \<Rightarrow> 'b) \<Rightarrow> json \<Rightarrow> 'b client \<Rightarrow> 'b world \<Rightarrow> exn option" where
  "unsent dumps image_data self w =
     (if channel_open w
      then faults w (BasicPublish (request dumps (armed self w) image_data))
      else Some (ChannelWrongStateError ''Channel is closed.''))"

definition posted :: "(json \<Rightarrow> 'b) \<Rightarrow> json \<Rightarrow> 'b client \<Rightarrow> 'b world \<Rightarrow> 'b world" where
  "posted dumps image_data self w =
     snd (invoke (BasicPublish (request dumps (armed self w) image_data))
            (w\<lparr>drawn := Suc (drawn w)\<rparr>))"

text \<open>A client as \<open>__init__\<close> leaves it in the world \<open>idle\<close>; a reply to some other
  request; a world with an open channel in which the second poll dispatches the reply to the first request between
  two stale replies; and a world in which every poll dispatches a stale reply only.\<close>

definition fresh_client :: "'b client" where
  "fresh_client = \<lparr>callback_queue = ''amq.gen-1'', response = None, corr_id = None\<rparr>"

definition stale :: "properties \<times> json" where
  "stale = (BasicProperties\<lparr>correlation_id := Some ''stale''\<rparr>, JStr ''old'')"

definition answering :: "json \<Rightarrow> json world" where
  "answering reply =
     idle\<lparr>queues := [''ocr_service'' \<mapsto>
                        \<lparr>durable = False, exclusive = False, messages = []\<rparr>],
          connection_open := True, channel_open := True,
          events := (\<lambda>n. if n = 1
                         then Dispatch [stale, (BasicProperties\<lparr>correlation_id := Some ''uuid-''\<rparr>, reply), stale]
                         else Dispatch [stale])\<rparr>"

definition unanswered :: "json world" where
  "unanswered =
     idle\<lparr>queues := [''ocr_service'' \<mapsto>
                        \<lparr>durable = False, exclusive = False, messages = []\<rparr>],
          connection_open := True, channel_open := True,
          events := (\<lambda>n. Dispatch [stale])\<rparr>"

text \<open>A world with an open channel in which the second poll dispatches the stub worker's
  reply to the request that \<open>call\<close> publishes for the payload \<open>P\<close>, between two replies to
  other requests; and two payloads: a tuple, and a dict like the one the gateway sends.\<close>

definition foreign :: "properties \<times> document" where
  "foreign = (BasicProperties\<lparr>correlation_id := Some ''stale''\<rparr>, DStr ''old'')"

definition serving :: "document world" where
  "serving =
     idle\<lparr>queues := [''ocr_service'' \<mapsto>
                        \<lparr>durable = False, exclusive = False, messages = []\<rparr>],
          connection_open := True, channel_open := True\<rparr>"

definition echoing :: "json \<Rightarrow> document world" where
  "echoing P =
     serving\<lparr>events :=
       (\<lambda>n. if n = 1
            then Dispatch
              (case stub_worker json_dumps json_loads
                      (request json_dumps (armed fresh_client serving) P) of
                 Some (q, d) \<Rightarrow> [foreign, d, foreign]
               | None \<Rightarrow> [foreign])
            else Dispatch [foreign])\<rparr>"

definition pair :: json where
  "pair = JTuple [JInt 1, JInt 2]"

definition upload :: json where
  "upload =
     JObj [(''user_name'', JStr ''ann''), (''user_email'', JStr ''a@b.com''),
           (''user_id'', JInt 7), (''file'', JStr ''aGVsbG8='')]"

section \<open>Properties of connect_to_rabbitmq\<close>

lemma connect_refused:
  "refused w (tries w) \<Longrightarrow> connect_to_rabbitmq w = connect_to_rabbitmq (retry w)"
  by (subst connect_to_rabbitmq.simps)
     (simp add: BlockingConnection_def retry_def refused_def)

lemma connect_lands:
  "\<not> refused w (tries w) \<Longrightarrow> connect_to_rabbitmq w = Some (landing 0 w)"
proof (cases "attempts w (tries w)")
  case None
  then show ?thesis
    by (subst connect_to_rabbitmq.simps)
       (simp add: BlockingConnection_def landing_def after_retries_def)
next
  case (Some e)
  assume "\<not> refused w (tries w)"
  with Some have "e \<noteq> AMQPConnectionError" by (simp add: refused_def)
  with Some show ?thesis
    by (subst connect_to_rabbitmq.simps)
       (cases e; simp add: BlockingConnection_def landing_def after_retries_def)
qed

lemma retry_fields [simp]:
  "tries (retry w) = Suc (tries w)" "attempts (retry w) = attempts w"
  by (simp_all add: retry_def sleep_def print_def)

lemma refused_retry [simp]: "refused (retry w) n = refused w n"
  by (simp add: refused_def)

lemma after_retries_Suc: "after_retries k (retry w) = after_retries (Suc k) w"
  by (simp add: after_retries_def retry_def sleep_def print_def replicate_append_same)

lemma landing_retry: "landing k (retry w) = landing (Suc k) w"
  by (simp add: landing_def after_retries_Suc split: option.splits)

lemma connect_returns:
  "(\<forall>j<k. refused w (tries w + j)) \<Longrightarrow> \<not> refused w (tries w + k) \<Longrightarrow>
   connect_to_rabbitmq w = Some (landing k w)"
proof (induction k arbitrary: w)
  case 0
  then show ?case by (simp add: connect_lands)
next
  case (Suc k)
  from Suc.prems(1) have no: "refused w (tries w)" by force
  have "\<forall>j<k. refused (retry w) (tries (retry w) + j)"
    using Suc.prems(1) by (simp add: Suc_less_eq2 flip: add_Suc_right)
  moreover have "\<not> refused (retry w) (tries (retry w) + k)"
    using Suc.prems(2) by simp
  ultimately have "connect_to_rabbitmq (retry w) = Some (landing k (retry w))"
    by (rule Suc.IH)
  then show ?case by (simp add: connect_refused[OF no] landing_retry)
qed

lemma connect_sound:
  assumes "connect_to_rabbitmq w = Some r"
  shows "\<exists>k. \<not> refused w (tries w + k)"
  using assms
proof (induction rule: connect_to_rabbitmq.raw_induct[rotated 1, consumes 1])
  case (1 connect w r)
  show ?case
  proof (cases "refused w (tries w)")
    case False
    then show ?thesis by (metis add.right_neutral)
  next
    case True
    with 1(2) have "connect (retry w) = Some r"
      by (simp add: BlockingConnection_def retry_def refused_def)
    from 1(1)[OF this] obtain k where "\<not> refused w (Suc (tries w) + k)" by auto
    then show ?thesis by (metis add_Suc_shift add_Suc)
  qed
qed

lemma first_landing:
  assumes "\<not> refused w (tries w + n)"
  obtains k where "\<forall>j<k. refused w (tries w + j)" "\<not> refused w (tries w + k)"
proof -
  let ?k = "LEAST k. \<not> refused w (tries w + k)"
  have "\<not> refused w (tries w + ?k)" using assms by (rule LeastI)
  moreover have "\<forall>j<?k. refused w (tries w + j)"
    using not_less_Least by blast
  ultimately show ?thesis using that by blast
qed

lemma connect_None_iff:
  "connect_to_rabbitmq w = None \<longleftrightarrow> (\<forall>n. refused w (tries w + n))"
proof
  assume n: "connect_to_rabbitmq w = None"
  show "\<forall>n. refused w (tries w + n)"
  proof (rule ccontr)
    assume "\<not> (\<forall>n. refused w (tries w + n))"
    then obtain n where "\<not> refused w (tries w + n)" by blast
    then obtain k where "\<forall>j<k. refused w (tries w + j)" "\<not> refused w (tries w + k)"
      by (rule first_landing)
    then have "connect_to_rabbitmq w = Some (landing k w)" by (rule connect_returns)
    with n show False by simp
  qed
next
  assume "\<forall>n. refused w (tries w + n)"
  then show "connect_to_rabbitmq w = None"
    using connect_sound[of w] by (cases "connect_to_rabbitmq w") auto
qed

text \<open>
  C6, as stated, fails: when \<open>pika.BlockingConnection(...)\<close> raises an exception that is not
  an \<open>AMQPConnectionError\<close> (here a \<open>TypeError\<close>, as with \<open>RABBITMQ_URL\<close> unset),
  \<open>connect_to_rabbitmq\<close> returns that error after the first attempt, with nothing printed,
  no sleep and no retry.
\<close>

theorem connect_to_rabbitmq_error_counterexample:
  "connect_to_rabbitmq (unconfigured :: json world) =
     Some (Inl (TypeError ''host''), unconfigured\<lparr>tries := 1\<rparr>)"
  by (simp add: connect_lands refused_def landing_def after_retries_def unconfigured_def
      idle_def)

text \<open>
  C6, amended. \<open>connect_to_rabbitmq\<close> retries on \<open>AMQPConnectionError\<close> only: after \<open>k\<close>
  attempts that raised it, each answered by the notice and five seconds of sleep, it
  returns the connection of the next attempt when that one succeeds, and the exception of
  the next attempt when that one raises another class. It fails to return exactly when
  every attempt raises \<open>AMQPConnectionError\<close>.
\<close>

theorem connect_to_rabbitmq_retries_until_connected:
  "((\<forall>j<k. attempts w (tries w + j) = Some AMQPConnectionError) \<and>
    attempts w (tries w + k) = None \<longrightarrow>
      connect_to_rabbitmq w =
        Some (Inr (tries w + k),
              w\<lparr>tries := Suc (tries w + k),
                stdout := stdout w @
                  replicate k (Text ''Failed to connect to RabbitMQ. Retrying in 5 seconds...''),
                slept := slept w + 5 * k,
                connection_open := True, channel_open := False\<rparr>))
   \<and> ((\<forall>j<k. attempts w (tries w + j) = Some AMQPConnectionError) \<and>
       attempts w (tries w + k) = Some e \<and> e \<noteq> AMQPConnectionError \<longrightarrow>
      connect_to_rabbitmq w =
        Some (Inl e,
              w\<lparr>tries := Suc (tries w + k),
                stdout := stdout w @
                  replicate k (Text ''Failed to connect to RabbitMQ. Retrying in 5 seconds...''),
                slept := slept w + 5 * k\<rparr>))
   \<and> (connect_to_rabbitmq w = None \<longleftrightarrow>
        (\<forall>n. attempts w (tries w + n) = Some AMQPConnectionError))"
proof (intro conjI impI)
  assume "(\<forall>j<k. attempts w (tries w + j) = Some AMQPConnectionError) \<and>
    attempts w (tries w + k) = None"
  then have "\<forall>j<k. refused w (tries w + j)" "\<not> refused w (tries w + k)"
    and a: "attempts w (tries w + k) = None"
    by (simp_all add: refused_def)
  then have "connect_to_rabbitmq w = Some (landing k w)" by (simp add: connect_returns)
  then show "connect_to_rabbitmq w =
        Some (Inr (tries w + k),
              w\<lparr>tries := Suc (tries w + k),
                stdout := stdout w @
                  replicate k (Text ''Failed to connect to RabbitMQ. Retrying in 5 seconds...''),
                slept := slept w + 5 * k,
                connection_open := True, channel_open := False\<rparr>)"
    by (simp add: landing_def a after_retries_def)
next
  assume "(\<forall>j<k. attempts w (tries w + j) = Some AMQPConnectionError) \<and>
       attempts w (tries w + k) = Some e \<and> e \<noteq> AMQPConnectionError"
  then have "\<forall>j<k. refused w (tries w + j)" "\<not> refused w (tries w + k)"
    and a: "attempts w (tries w + k) = Some e"
    by (simp_all add: refused_def)
  then have "connect_to_rabbitmq w = Some (landing k w)" by (simp add: connect_returns)
  then show "connect_to_rabbitmq w =
        Some (Inl e,
              w\<lparr>tries := Suc (tries w + k),
                stdout := stdout w @
                  replicate k (Text ''Failed to connect to RabbitMQ. Retrying in 5 seconds...''),
                slept := slept w + 5 * k\<rparr>)"
    by (simp add: landing_def a after_retries_def)
next
  show "connect_to_rabbitmq w = None \<longleftrightarrow>
        (\<forall>n. attempts w (tries w + n) = Some AMQPConnectionError)"
    using connect_None_iff[of w] by (simp add: refused_def)
qed

theorem connect_to_rabbitmq_retries_until_connected_witness:
  "connect_to_rabbitmq
     ((idle :: json world)\<lparr>attempts := \<lambda>n. if n < 2 then Some AMQPConnectionError else None\<rparr>) =
     Some (Inr 2,
           idle\<lparr>attempts := \<lambda>n. if n < 2 then Some AMQPConnectionError else None, tries := 3,
             stdout := [Text ''Failed to connect to RabbitMQ. Retrying in 5 seconds...'',
                        Text ''Failed to connect to RabbitMQ. Retrying in 5 seconds...''],
             slept := 10, connection_open := True\<rparr>)
   \<and> connect_to_rabbitmq
       ((idle :: json world)\<lparr>attempts :=
          \<lambda>n. if n < 1 then Some AMQPConnectionError else Some (TypeError ''host'')\<rparr>) =
     Some (Inl (TypeError ''host''),
           idle\<lparr>attempts :=
               \<lambda>n. if n < 1 then Some AMQPConnectionError else Some (TypeError ''host''),
             tries := 2,
             stdout := [Text ''Failed to connect to RabbitMQ. Retrying in 5 seconds...''],
             slept := 5\<rparr>)
   \<and> connect_to_rabbitmq ((idle :: json world)\<lparr>attempts := \<lambda>n. Some AMQPConnectionError\<rparr>)
       = None"
  using connect_to_rabbitmq_retries_until_connected
          [of 2 "(idle :: json world)\<lparr>attempts :=
                    \<lambda>n. if n < 2 then Some AMQPConnectionError else None\<rparr>"]
        connect_to_rabbitmq_retries_until_connected
          [of 1 "(idle :: json world)\<lparr>attempts :=
                    \<lambda>n. if n < 1 then Some AMQPConnectionError else Some (TypeError ''host'')\<rparr>"
              "TypeError ''host''"]
        connect_to_rabbitmq_retries_until_connected
          [of 0 "(idle :: json world)\<lparr>attempts := \<lambda>n. Some AMQPConnectionError\<rparr>"]
  by (simp add: idle_def numeral_2_eq_2 numeral_3_eq_3)

section \<open>Properties of send_otp\<close>

lemma publishes_append [simp]: "publishes (cs @ ds) = publishes cs @ publishes ds"
  by (induction cs rule: publishes.induct) simp_all

text \<open>The four ways through the try block, on an open channel.\<close>

lemma send_otp_try_eq:
  "channel_open w \<Longrightarrow>
   send_otp_try dumps message w =
     (case faults w passive_declare of
        Some e \<Rightarrow>
          (Inl e, w\<lparr>trace := trace w @ [passive_declare],
                    channel_open := False, connection_open := False\<rparr>)
      | None \<Rightarrow>
          (case queues w ''email_notification'' of
             None \<Rightarrow> (Inl (ChannelClosedByBroker 404 ''NOT_FOUND''),
                      w\<lparr>trace := trace w @ [passive_declare], channel_open := False\<rparr>)
           | Some qu \<Rightarrow>
               (case faults w (BasicPublish (notification dumps message)) of
                  Some e \<Rightarrow>
                    (Inl e, w\<lparr>trace := trace w @
                               [passive_declare, BasicPublish (notification dumps message)],
                              channel_open := False, connection_open := False\<rparr>)
                | None \<Rightarrow>
                    (Inr (),
                     w\<lparr>trace := trace w @
                               [passive_declare, BasicPublish (notification dumps message)],
                       queues := (queues w)(''email_notification'' \<mapsto>
                          qu\<lparr>messages := messages qu @ [notification dumps message]\<rparr>),
                       stdout := stdout w @ [Text ''Sent OTP email notification'']\<rparr>))))"
  by (simp add: send_otp_try_def and_then_def invoke_def usable_def wrong_state_def amqp_def
      return_def print_def passive_declare_def notification_def Let_def split: option.splits)

lemma connect_frame:
  assumes "connect_to_rabbitmq w = Some (r, w1)"
  shows "\<exists>k. (r, w1) = landing k w"
proof -
  from assms obtain n where "\<not> refused w (tries w + n)" using connect_sound by blast
  then obtain k where "\<forall>j<k. refused w (tries w + j)" "\<not> refused w (tries w + k)"
    by (rule first_landing)
  then have "connect_to_rabbitmq w = Some (landing k w)" by (rule connect_returns)
  with assms have "(r, w1) = landing k w" by simp
  then show ?thesis ..
qed

lemma connected_frame:
  assumes "connect_to_rabbitmq w = Some (Inr c, w1)"
  shows "connection_open w1 \<and> \<not> channel_open w1 \<and> faults w1 = faults w \<and>
         queues w1 = queues w \<and> trace w1 = trace w \<and>
         (\<exists>k. stdout w1 = stdout w @
            replicate k (Text ''Failed to connect to RabbitMQ. Retrying in 5 seconds...''))"
  using connect_frame[OF assms]
  by (auto simp add: landing_def after_retries_def split: option.splits)

lemma crashed_frame:
  assumes "connect_to_rabbitmq w = Some (Inl e, w1)"
  shows "queues w1 = queues w \<and> trace w1 = trace w"
  using connect_frame[OF assms]
  by (auto simp add: landing_def after_retries_def split: option.splits)

lemma send_otp_eq:
  "send_otp dumps email otp channel w =
     (case connect_to_rabbitmq w of
        None \<Rightarrow> None
      | Some (Inl e, w1) \<Rightarrow> Some (Inl e, w1)
      | Some (Inr connection, w1) \<Rightarrow> Some (after_connect dumps email otp w1))"
  by (simp add: send_otp_def after_connect_def split: option.splits sum.splits prod.splits)

lemma closing_eq:
  "channel_open w \<Longrightarrow> connection_open w \<Longrightarrow>
   and_then (invoke ChannelClose) (\<lambda>_. and_then (invoke ConnectionClose) (\<lambda>_. return ())) w =
     (closing_result (faults w),
      w\<lparr>trace := trace w @ (case faults w ChannelClose of
                               Some e \<Rightarrow> [ChannelClose]
                             | None \<Rightarrow> [ChannelClose, ConnectionClose]),
        channel_open := False, connection_open := False\<rparr>)"
  by (simp add: and_then_def invoke_def usable_def wrong_state_def amqp_def return_def
      closing_result_def Let_def split: option.splits)

lemma closing_closed:
  "\<not> channel_open w \<Longrightarrow>
   and_then (invoke ChannelClose) (\<lambda>_. and_then (invoke ConnectionClose) (\<lambda>_. return ())) w =
     (Inl (ChannelWrongStateError ''Channel is closed.''), w\<lparr>trace := trace w @ [ChannelClose]\<rparr>)"
  by (simp add: and_then_def invoke_def usable_def wrong_state_def Let_def)

lemma after_connect_publishes:
  "connection_open w \<Longrightarrow>
   publishes (trace (snd (after_connect dumps email otp w))) =
     publishes (trace w) @
     (if reaches_publish w then [notification dumps (otp_message email otp)] else [])"
  by (simp add: after_connect_def invoke_def usable_def wrong_state_def amqp_def Let_def
      send_otp_try_eq closing_eq closing_closed print_def reaches_publish_def
      passive_declare_def split: option.splits)

lemma after_connect_durable:
  "connection_open w \<Longrightarrow>
   map_option durable (queues (snd (after_connect dumps email otp w)) q) =
   map_option durable (queues w q)"
  by (simp add: after_connect_def invoke_def usable_def wrong_state_def amqp_def Let_def
      send_otp_try_eq closing_eq closing_closed print_def split: option.splits)

lemma after_connect_failed_publish:
  "connection_open w \<Longrightarrow> reaches_publish w \<Longrightarrow>
   faults w (BasicPublish (notification dumps (otp_message email otp))) = Some err \<Longrightarrow>
   fst (after_connect dumps email otp w) = Inl (ChannelWrongStateError ''Channel is closed.'') \<and>
   queues (snd (after_connect dumps email otp w)) = queues w \<and>
   stdout (snd (after_connect dumps email otp w)) =
     stdout w @ [TextExn ''Failed to publish message: '' err]"
  by (auto simp add: after_connect_def invoke_def usable_def wrong_state_def amqp_def Let_def
      send_otp_try_eq closing_eq closing_closed print_def reaches_publish_def
      split: option.splits)

lemma after_connect_delivered:
  "connection_open w \<Longrightarrow> fst (after_connect dumps email otp w) = Inr () \<Longrightarrow>
   \<exists>q. queues w ''email_notification'' = Some q \<and>
       queues (snd (after_connect dumps email otp w)) =
         (queues w)(''email_notification'' \<mapsto>
            q\<lparr>messages := messages q @ [notification dumps (otp_message email otp)]\<rparr>)"
  by (auto simp add: after_connect_def invoke_def usable_def wrong_state_def amqp_def Let_def
      send_otp_try_eq closing_eq closing_closed print_def
      split: option.splits if_splits)

lemma send_otp_run:
  "attempts w (tries w) = None \<Longrightarrow>
   send_otp dumps email otp channel w =
     Some (after_connect dumps email otp
             (w\<lparr>tries := Suc (tries w), connection_open := True, channel_open := False\<rparr>))"
  by (simp add: send_otp_eq connect_lands refused_def landing_def after_retries_def)

text \<open>
  C10. \<open>send_otp\<close> does not depend on its \<open>channel\<close> argument: with the same email, otp
  and world, two runs with any two channel values (of any types) return the same result and
  leave the same world. The parameter is rebound to \<open>connection.channel()\<close> before any use.
\<close>

theorem send_otp_ignores_channel:
  "send_otp dumps email otp (channel :: 'c) w = send_otp dumps email otp (other :: 'd) w"
  by (simp add: send_otp_def)

text \<open>
  C7. In every run of \<open>send_otp\<close> that returns, the calls of \<open>basic_publish\<close> it adds are
  exactly one when a connection is obtained and the try block reaches the publish, and none
  otherwise, and the message carries delivery mode 2 (persistent), no reply-to and no
  correlation id.
\<close>

theorem send_otp_emits_one_persistent_message:
  assumes "send_otp dumps email otp channel w = Some (r, w1)"
  shows "\<exists>ms. publishes (trace w1) = publishes (trace w) @ ms \<and>
              length ms =
                (if (\<exists>c w0. connect_to_rabbitmq w = Some (Inr c, w0)) \<and> reaches_publish w
                 then 1 else 0) \<and>
              (\<forall>m\<in>set ms. delivery_mode (props m) = Some PERSISTENT_DELIVERY_MODE \<and>
                          reply_to (props m) = None \<and> correlation_id (props m) = None) \<and>
              PERSISTENT_DELIVERY_MODE = 2"
proof -
  from assms obtain r0 w0 where c: "connect_to_rabbitmq w = Some (r0, w0)"
    by (auto simp add: send_otp_eq split: option.splits)
  show ?thesis
  proof (cases r0)
    case (Inl e)
    with c assms have "w1 = w0" by (simp add: send_otp_eq)
    with c Inl crashed_frame[of w e w0] have "publishes (trace w1) = publishes (trace w)"
      by simp
    with c Inl show ?thesis by (simp add: PERSISTENT_DELIVERY_MODE_def)
  next
    case (Inr conn)
    with c assms have a: "after_connect dumps email otp w0 = (r, w1)"
      by (simp add: send_otp_eq)
    from connected_frame[of w conn w0] c Inr
    have f: "connection_open w0" "trace w0 = trace w" "reaches_publish w0 = reaches_publish w"
      by (auto simp add: reaches_publish_def)
    with after_connect_publishes[of w0 dumps email otp] a
    have "publishes (trace w1) = publishes (trace w) @
       (if reaches_publish w then [notification dumps (otp_message email otp)] else [])"
      by simp
    with c Inr show ?thesis
      by (auto simp add: notification_def BasicProperties_def PERSISTENT_DELIVERY_MODE_def)
  qed
qed

lemma provisioned_run:
  "send_otp id ''a@b.com'' ''123456'' () (provisioned :: json world) =
     Some (Inr (),
           provisioned\<lparr>
             queues := [''email_notification'' \<mapsto>
               \<lparr>durable = True, exclusive = False,
                messages = [notification id (otp_message ''a@b.com'' ''123456'')]\<rparr>],
             tries := 1,
             stdout := [Text ''Sent OTP email notification''],
             trace := [OpenChannel, passive_declare,
                       BasicPublish (notification id (otp_message ''a@b.com'' ''123456'')),
                       ChannelClose, ConnectionClose]\<rparr>)"
  by (simp add: send_otp_run after_connect_def invoke_def usable_def wrong_state_def amqp_def
      Let_def send_otp_try_eq closing_eq print_def provisioned_def idle_def passive_declare_def
      closing_result_def)

lemma provisioned_connects:
  "connect_to_rabbitmq (provisioned :: json world) =
     Some (Inr 0, provisioned\<lparr>tries := 1, connection_open := True\<rparr>)"
  by (simp add: connect_lands refused_def landing_def after_retries_def provisioned_def idle_def)

theorem send_otp_emits_one_persistent_message_witness:
  "send_otp id ''a@b.com'' ''123456'' () (provisioned :: json world) =
     Some (Inr (),
           provisioned\<lparr>
             queues := [''email_notification'' \<mapsto>
               \<lparr>durable = True, exclusive = False,
                messages = [notification id (otp_message ''a@b.com'' ''123456'')]\<rparr>],
             tries := 1,
             stdout := [Text ''Sent OTP email notification''],
             trace := [OpenChannel, passive_declare,
                       BasicPublish (notification id (otp_message ''a@b.com'' ''123456'')),
                       ChannelClose, ConnectionClose]\<rparr>)
   \<and> delivery_mode (props (notification id (otp_message ''a@b.com'' ''123456''))) = Some 2
   \<and> reply_to (props (notification id (otp_message ''a@b.com'' ''123456''))) = None
   \<and> correlation_id (props (notification id (otp_message ''a@b.com'' ''123456''))) = None"
proof -
  let ?M = "notification id (otp_message ''a@b.com'' ''123456'')"
  have reach: "reaches_publish (provisioned :: json world)"
    by (simp add: reaches_publish_def provisioned_def idle_def passive_declare_def)
  from send_otp_emits_one_persistent_message[OF provisioned_run]
  obtain ms where ms: "[?M] = publishes (trace (provisioned :: json world)) @ ms"
    and len: "length ms =
                (if (\<exists>c w0. connect_to_rabbitmq (provisioned :: json world) = Some (Inr c, w0)) \<and>
                    reaches_publish (provisioned :: json world)
                 then 1 else 0)"
    and flags: "\<forall>m\<in>set ms. delivery_mode (props m) = Some PERSISTENT_DELIVERY_MODE \<and>
                  reply_to (props m) = None \<and> correlation_id (props m) = None"
    and two: "PERSISTENT_DELIVERY_MODE = 2"
    by (auto simp add: passive_declare_def)
  from len reach provisioned_connects have "length ms = 1" by simp
  have "trace (provisioned :: json world) = []" by (simp add: provisioned_def idle_def)
  with ms have "ms = [?M]" by simp
  then have "?M \<in> set ms" by simp
  with flags two have "delivery_mode (props ?M) = Some 2 \<and>
      reply_to (props ?M) = None \<and> correlation_id (props ?M) = None"
    by auto
  with provisioned_run show ?thesis by blast
qed

text \<open>
  C8. Every message \<open>send_otp\<close> publishes goes through the default exchange to the queue
  \<open>email_notification\<close>, and its body is the JSON encoding of an object with exactly the
  keys email, subject, other and body, in which email is the input email and body is a
  string containing the input otp.
\<close>

theorem send_otp_body_shape:
  assumes "send_otp dumps email otp channel w = Some (r, w1)"
    and "publishes (trace w1) = publishes (trace w) @ ms"
    and "m \<in> set ms"
  shows "exchange m = [] \<and> routing_key m = ''email_notification'' \<and>
         (\<exists>fields text.
            body m = dumps (JObj fields) \<and>
            map fst fields = [''email'', ''subject'', ''other'', ''body''] \<and>
            map_of fields ''email'' = Some (JStr email) \<and>
            map_of fields ''body'' = Some (JStr text) \<and>
            sublist otp text)"
proof -
  from assms(1) obtain r0 w0 where c: "connect_to_rabbitmq w = Some (r0, w0)"
    by (auto simp add: send_otp_eq split: option.splits)
  have "publishes (trace w1) = publishes (trace w) @
     (if (\<exists>conn. r0 = Inr conn) \<and> reaches_publish w
      then [notification dumps (otp_message email otp)] else [])"
  proof (cases r0)
    case (Inl e)
    with c assms(1) have "w1 = w0" by (simp add: send_otp_eq)
    with c Inl crashed_frame[of w e w0] show ?thesis by simp
  next
    case (Inr conn)
    with c assms(1) have a: "after_connect dumps email otp w0 = (r, w1)"
      by (simp add: send_otp_eq)
    from connected_frame[of w conn w0] c Inr
    have "connection_open w0" "trace w0 = trace w" "reaches_publish w0 = reaches_publish w"
      by (auto simp add: reaches_publish_def)
    with after_connect_publishes[of w0 dumps email otp] a Inr show ?thesis by simp
  qed
  with assms(2,3) have m: "m = notification dumps (otp_message email otp)"
    by (auto split: if_splits)
  have "sublist otp (otp_body otp)"
    unfolding otp_body_def by (rule sublist_appendI)
  then have "\<exists>fields text.
            dumps (otp_message email otp) = dumps (JObj fields) \<and>
            map fst fields = [''email'', ''subject'', ''other'', ''body''] \<and>
            map_of fields ''email'' = Some (JStr email) \<and>
            map_of fields ''body'' = Some (JStr text) \<and>
            sublist otp text"
    unfolding otp_message_def
    by (intro exI[of _ "[(''email'', JStr email),
           (''subject'', JStr ''Account Verification OTP Notification''),
           (''other'', JStr ''null''),
           (''body'', JStr (otp_body otp))]"] exI[of _ "otp_body otp"]) simp
  with m show ?thesis by (simp add: notification_def)
qed

theorem send_otp_body_shape_witness:
  "send_otp id ''a@b.com'' ''123456'' () (provisioned :: json world) =
     Some (Inr (),
           provisioned\<lparr>
             queues := [''email_notification'' \<mapsto>
               \<lparr>durable = True, exclusive = False,
                messages = [notification id (otp_message ''a@b.com'' ''123456'')]\<rparr>],
             tries := 1,
             stdout := [Text ''Sent OTP email notification''],
             trace := [OpenChannel, passive_declare,
                       BasicPublish (notification id (otp_message ''a@b.com'' ''123456'')),
                       ChannelClose, ConnectionClose]\<rparr>)
   \<and> routing_key (notification id (otp_message ''a@b.com'' ''123456'')) = ''email_notification''
   \<and> (\<exists>fields text.
         body (notification id (otp_message ''a@b.com'' ''123456'')) = JObj fields \<and>
         map fst fields = [''email'', ''subject'', ''other'', ''body''] \<and>
         map_of fields ''email'' = Some (JStr ''a@b.com'') \<and>
         map_of fields ''body'' = Some (JStr text) \<and>
         sublist ''123456'' text)"
proof -
  let ?M = "notification id (otp_message ''a@b.com'' ''123456'')"
  have "publishes [OpenChannel, passive_declare, BasicPublish ?M, ChannelClose, ConnectionClose]
          = publishes (trace (provisioned :: json world)) @ [?M]"
    by (simp add: provisioned_def idle_def passive_declare_def)
  then have "publishes (trace ((provisioned :: json world)\<lparr>
             queues := [''email_notification'' \<mapsto>
               \<lparr>durable = True, exclusive = False,
                messages = [?M]\<rparr>],
             tries := 1,
             stdout := [Text ''Sent OTP email notification''],
             trace := [OpenChannel, passive_declare,
                       BasicPublish ?M,
                       ChannelClose, ConnectionClose]\<rparr>)) = publishes (trace (provisioned :: json world)) @ [?M]"
    by simp
  from send_otp_body_shape[OF provisioned_run this, of ?M] provisioned_run
  show ?thesis by simp
qed

text \<open>
  C3. When \<open>basic_publish\<close> raises, the caller of \<open>send_otp\<close> receives an exception: the
  publish's own exception \<open>err\<close> is caught and printed, but it leaves the channel closed, so
  \<open>channel.close()\<close> in the \<open>finally\<close> clause raises \<open>ChannelWrongStateError\<close>, which leaves
  \<open>send_otp\<close>; the queues are as they were. Conversely, whenever \<open>send_otp\<close> returns normally
  the message has been appended to the queue: no message is dropped without an exception
  reaching the caller.
\<close>

theorem send_otp_signals_publish_failure:
  assumes "send_otp dumps email otp channel w = Some (r, w1)"
  shows "((\<exists>c w0. connect_to_rabbitmq w = Some (Inr c, w0)) \<and> reaches_publish w \<and>
          faults w (BasicPublish (notification dumps (otp_message email otp))) = Some err \<longrightarrow>
            r = Inl (ChannelWrongStateError ''Channel is closed.'') \<and>
            queues w1 = queues w \<and>
            (\<exists>k. stdout w1 =
               stdout w @
               replicate k (Text ''Failed to connect to RabbitMQ. Retrying in 5 seconds...'') @
               [TextExn ''Failed to publish message: '' err]))
       \<and> (r = Inr () \<longrightarrow>
            (\<exists>q. queues w ''email_notification'' = Some q \<and>
                 queues w1 = (queues w)(''email_notification'' \<mapsto>
                    q\<lparr>messages := messages q @
                         [notification dumps (otp_message email otp)]\<rparr>)))"
proof (rule conjI; rule impI)
  assume h: "(\<exists>c w0. connect_to_rabbitmq w = Some (Inr c, w0)) \<and> reaches_publish w \<and>
          faults w (BasicPublish (notification dumps (otp_message email otp))) = Some err"
  then obtain c w0 where c: "connect_to_rabbitmq w = Some (Inr c, w0)" by blast
  with assms have a: "after_connect dumps email otp w0 = (r, w1)" by (simp add: send_otp_eq)
  from connected_frame[OF c] obtain k where
    f: "connection_open w0" "faults w0 = faults w" "queues w0 = queues w"
       "stdout w0 = stdout w @
          replicate k (Text ''Failed to connect to RabbitMQ. Retrying in 5 seconds...'')"
    by blast
  then have "reaches_publish w0" using h by (simp add: reaches_publish_def)
  from after_connect_failed_publish[OF f(1) this, of dumps email otp err] h a f
  show "r = Inl (ChannelWrongStateError ''Channel is closed.'') \<and>
            queues w1 = queues w \<and>
            (\<exists>k. stdout w1 =
               stdout w @
               replicate k (Text ''Failed to connect to RabbitMQ. Retrying in 5 seconds...'') @
               [TextExn ''Failed to publish message: '' err])"
    by auto
next
  assume r: "r = Inr ()"
  from assms obtain r0 w0 where c: "connect_to_rabbitmq w = Some (r0, w0)"
    by (auto simp add: send_otp_eq split: option.splits)
  with assms r obtain conn where conn: "r0 = Inr conn"
    by (cases r0) (auto simp add: send_otp_eq)
  with c assms have a: "after_connect dumps email otp w0 = (r, w1)" by (simp add: send_otp_eq)
  from connected_frame[of w conn w0] c conn
  have f: "connection_open w0" "queues w0 = queues w" by auto
  from after_connect_delivered[OF f(1), of dumps email otp] a r f(2)
  show "\<exists>q. queues w ''email_notification'' = Some q \<and>
                 queues w1 = (queues w)(''email_notification'' \<mapsto>
                    q\<lparr>messages := messages q @
                         [notification dumps (otp_message email otp)]\<rparr>)"
    by simp
qed

lemma lossy_run:
  "send_otp id ''a@b.com'' ''123456'' () (lossy :: json world) =
     Some (Inl (ChannelWrongStateError ''Channel is closed.''),
           lossy\<lparr>tries := 1,
             stdout := [TextExn ''Failed to publish message: ''
                          (TransportError ''Stream connection lost'')],
             trace := [OpenChannel, passive_declare,
                       BasicPublish (notification id (otp_message ''a@b.com'' ''123456'')),
                       ChannelClose]\<rparr>)"
  by (simp add: send_otp_run after_connect_def invoke_def usable_def wrong_state_def amqp_def
      Let_def send_otp_try_eq closing_closed print_def lossy_def provisioned_def idle_def
      passive_declare_def)

theorem send_otp_signals_publish_failure_witness:
  "send_otp id ''a@b.com'' ''123456'' () (lossy :: json world) =
     Some (Inl (ChannelWrongStateError ''Channel is closed.''),
           lossy\<lparr>tries := 1,
             stdout := [TextExn ''Failed to publish message: ''
                          (TransportError ''Stream connection lost'')],
             trace := [OpenChannel, passive_declare,
                       BasicPublish (notification id (otp_message ''a@b.com'' ''123456'')),
                       ChannelClose]\<rparr>)
   \<and> connect_to_rabbitmq (lossy :: json world) =
       Some (Inr 0, lossy\<lparr>tries := 1, connection_open := True\<rparr>)
   \<and> reaches_publish (lossy :: json world)
   \<and> faults (lossy :: json world)
        (BasicPublish (notification id (otp_message ''a@b.com'' ''123456'')))
       = Some (TransportError ''Stream connection lost'')
   \<and> send_otp id ''a@b.com'' ''123456'' () (provisioned :: json world) =
     Some (Inr (),
           provisioned\<lparr>
             queues := [''email_notification'' \<mapsto>
               \<lparr>durable = True, exclusive = False,
                messages = [notification id (otp_message ''a@b.com'' ''123456'')]\<rparr>],
             tries := 1,
             stdout := [Text ''Sent OTP email notification''],
             trace := [OpenChannel, passive_declare,
                       BasicPublish (notification id (otp_message ''a@b.com'' ''123456'')),
                       ChannelClose, ConnectionClose]\<rparr>)
   \<and> (\<exists>q. queues (provisioned :: json world) ''email_notification'' = Some q \<and>
          [''email_notification'' \<mapsto>
               \<lparr>durable = True, exclusive = False,
                messages = [notification id (otp_message ''a@b.com'' ''123456'')]\<rparr>] =
          (queues (provisioned :: json world))(''email_notification'' \<mapsto>
             q\<lparr>messages := messages q @
                  [notification id (otp_message ''a@b.com'' ''123456'')]\<rparr>))"
proof -
  have c: "connect_to_rabbitmq (lossy :: json world) =
       Some (Inr 0, lossy\<lparr>tries := 1, connection_open := True\<rparr>)"
    by (simp add: connect_lands refused_def landing_def after_retries_def lossy_def
        provisioned_def idle_def)
  have hyps: "reaches_publish (lossy :: json world)"
    "faults (lossy :: json world)
        (BasicPublish (notification id (otp_message ''a@b.com'' ''123456'')))
       = Some (TransportError ''Stream connection lost'')"
    by (simp_all add: reaches_publish_def lossy_def provisioned_def idle_def passive_declare_def)
  from send_otp_signals_publish_failure[OF provisioned_run]
  have "\<exists>q. queues (provisioned :: json world) ''email_notification'' = Some q \<and>
          queues ((provisioned :: json world)\<lparr>
             queues := [''email_notification'' \<mapsto>
               \<lparr>durable = True, exclusive = False,
                messages = [notification id (otp_message ''a@b.com'' ''123456'')]\<rparr>],
             tries := 1,
             stdout := [Text ''Sent OTP email notification''],
             trace := [OpenChannel, passive_declare,
                       BasicPublish (notification id (otp_message ''a@b.com'' ''123456'')),
                       ChannelClose, ConnectionClose]\<rparr>) =
          (queues (provisioned :: json world))(''email_notification'' \<mapsto>
             q\<lparr>messages := messages q @
                  [notification id (otp_message ''a@b.com'' ''123456'')]\<rparr>)"
    by blast
  then have "\<exists>q. queues (provisioned :: json world) ''email_notification'' = Some q \<and>
          [''email_notification'' \<mapsto>
               \<lparr>durable = True, exclusive = False,
                messages = [notification id (otp_message ''a@b.com'' ''123456'')]\<rparr>] =
          (queues (provisioned :: json world))(''email_notification'' \<mapsto>
             q\<lparr>messages := messages q @
                  [notification id (otp_message ''a@b.com'' ''123456'')]\<rparr>)"
    by simp
  with send_otp_signals_publish_failure[OF lossy_run] c hyps lossy_run provisioned_run
  show ?thesis by blast
qed

text \<open>
  C4 at the queue as \<open>auth/main.py\<close> declares it (existing, not durable): the passive
  declare returns the queue's name, which is compared with itself, so the queue is neither
  deleted nor redeclared; \<open>send_otp\<close> publishes and returns, and the queue is still not
  durable.
\<close>

theorem send_otp_leaves_queue_non_durable:
  "send_otp id ''a@b.com'' ''123456'' () (legacy :: json world) =
     Some (Inr (),
           legacy\<lparr>
             queues := [''email_notification'' \<mapsto>
               \<lparr>durable = False, exclusive = False,
                messages = [notification id (otp_message ''a@b.com'' ''123456'')]\<rparr>],
             tries := 1,
             stdout := [Text ''Sent OTP email notification''],
             trace := [OpenChannel, passive_declare,
                       BasicPublish (notification id (otp_message ''a@b.com'' ''123456'')),
                       ChannelClose, ConnectionClose]\<rparr>)"
  by (simp add: send_otp_run after_connect_def invoke_def usable_def wrong_state_def amqp_def
      Let_def send_otp_try_eq closing_eq print_def legacy_def idle_def passive_declare_def
      closing_result_def)

text \<open>More generally, no run of \<open>send_otp\<close> changes the durability of any queue or
  creates a queue.\<close>

lemma send_otp_never_changes_durability:
  assumes "send_otp dumps email otp channel w = Some (r, w1)"
  shows "map_option durable (queues w1 q) = map_option durable (queues w q)"
proof -
  from assms obtain r0 w0 where c: "connect_to_rabbitmq w = Some (r0, w0)"
    by (auto simp add: send_otp_eq split: option.splits)
  show ?thesis
  proof (cases r0)
    case (Inl e)
    with c assms have "w1 = w0" by (simp add: send_otp_eq)
    with c Inl crashed_frame[of w e w0] show ?thesis by simp
  next
    case (Inr conn)
    with c assms have a: "after_connect dumps email otp w0 = (r, w1)"
      by (simp add: send_otp_eq)
    from connected_frame[of w conn w0] c Inr
    have "connection_open w0" "queues w0 = queues w" by auto
    with after_connect_durable[of w0 dumps email otp q] a show ?thesis by simp
  qed
qed

section \<open>Properties of OcrRpcClient\<close>

lemma matching_append [simp]: "matching c (ds @ es) = matching c ds @ matching c es"
  by (induction ds) auto

lemma matching_set:
  "b \<in> set (matching c ds) \<longleftrightarrow> (\<exists>p. (p, b) \<in> set ds \<and> correlation_id p = Some c)"
  by (induction ds) (auto split: if_splits)

lemma on_response_foreign:
  "corr_id self = Some c \<Longrightarrow> correlation_id p \<noteq> Some c \<Longrightarrow>
   on_response self p b = (Inr (), self)"
  by (auto simp add: on_response_def)

lemma on_response_matching:
  "corr_id self = Some c \<Longrightarrow> correlation_id p = Some c \<Longrightarrow>
   on_response self p b = (Inr (), self\<lparr>response := Some b\<rparr>)"
  by (simp add: on_response_def)

lemma dispatch_eq:
  "corr_id self = Some c \<Longrightarrow>
   dispatch self ds =
     (Inr (), if matching c ds = [] then self
              else self\<lparr>response := Some (last (matching c ds))\<rparr>)"
proof (induction ds arbitrary: self)
  case Nil
  then show ?case by simp
next
  case (Cons d ds)
  obtain p b where d: "d = (p, b)" by (cases d)
  show ?case
  proof (cases "correlation_id p = Some c")
    case True
    with Cons.prems have "on_response self p b = (Inr (), self\<lparr>response := Some b\<rparr>)"
      by (rule on_response_matching)
    moreover have "corr_id (self\<lparr>response := Some b\<rparr>) = Some c" using Cons.prems by simp
    ultimately show ?thesis using Cons.IH[of "self\<lparr>response := Some b\<rparr>"] d True by simp
  next
    case False
    with Cons.prems have "on_response self p b = (Inr (), self)" by (rule on_response_foreign)
    with Cons.IH[OF Cons.prems] d False show ?thesis by simp
  qed
qed

lemma wait_filled: "response self = Some b \<Longrightarrow> wait self w = Some (Inr (), self, w)"
  by (subst wait.simps) simp

lemma wait_silent_step:
  "corr_id self = Some c \<Longrightarrow> response self = None \<Longrightarrow> silent c (events w (polls w)) \<Longrightarrow>
   wait self w = wait self (w\<lparr>polls := Suc (polls w)\<rparr>)"
  by (subst wait.simps, cases "events w (polls w)")
     (simp_all add: process_data_events_def dispatch_eq Let_def)

lemma wait_settles_now:
  "corr_id self = Some c \<Longrightarrow> response self = None \<Longrightarrow> \<not> silent c (events w (polls w)) \<Longrightarrow>
   wait self w = Some (settle c self w 0)"
  by (subst wait.simps, cases "events w (polls w)")
     (simp_all add: process_data_events_def dispatch_eq Let_def settle_def wait_filled)

lemma settle_shift: "settle c self (w\<lparr>polls := Suc (polls w)\<rparr>) k = settle c self w (Suc k)"
  by (simp add: settle_def split: event.splits)

lemma wait_settles:
  "corr_id self = Some c \<Longrightarrow> response self = None \<Longrightarrow>
   (\<forall>j<k. silent c (events w (polls w + j))) \<Longrightarrow> \<not> silent c (events w (polls w + k)) \<Longrightarrow>
   wait self w = Some (settle c self w k)"
proof (induction k arbitrary: w)
  case 0
  then show ?case by (simp add: wait_settles_now)
next
  case (Suc k)
  let ?w = "w\<lparr>polls := Suc (polls w)\<rparr>"
  from Suc.prems(3) have s0: "silent c (events w (polls w))" by force
  have "\<forall>j<k. silent c (events ?w (polls ?w + j))"
    using Suc.prems(3) by (simp add: Suc_less_eq2 flip: add_Suc_right)
  moreover have "\<not> silent c (events ?w (polls ?w + k))" using Suc.prems(4) by simp
  ultimately have "wait self ?w = Some (settle c self ?w k)"
    using Suc.prems(1,2) by (rule Suc.IH[rotated 2])
  then show ?case using wait_silent_step[OF Suc.prems(1,2) s0] by (simp add: settle_shift)
qed

lemma wait_sound:
  assumes "wait self w = Some r"
  shows "corr_id self = Some c \<Longrightarrow> response self = None \<Longrightarrow>
         \<exists>k. \<not> silent c (events w (polls w + k))"
  using assms
proof (induction rule: wait.raw_induct[rotated 1, consumes 1])
  case (1 wt self w r)
  show ?case
  proof (cases "silent c (events w (polls w))")
    case False
    then show ?thesis by (metis add.right_neutral)
  next
    case True
    then obtain ds where ds: "events w (polls w) = Dispatch ds" "matching c ds = []"
      by (cases "events w (polls w)") auto
    with 1(2,3,4) have "wt self (w\<lparr>polls := Suc (polls w)\<rparr>) = Some r"
      by (simp add: process_data_events_def dispatch_eq Let_def)
    from 1(1)[OF this 1(3,4)] obtain k where "\<not> silent c (events w (Suc (polls w) + k))"
      by auto
    then show ?thesis by (metis add_Suc_shift add_Suc)
  qed
qed

lemma first_answer:
  assumes "\<not> silent c (events w (polls w + n))"
  obtains k where "\<forall>j<k. silent c (events w (polls w + j))"
    "\<not> silent c (events w (polls w + k))"
proof -
  let ?k = "LEAST k. \<not> silent c (events w (polls w + k))"
  have "\<not> silent c (events w (polls w + ?k))" using assms by (rule LeastI)
  moreover have "\<forall>j<?k. silent c (events w (polls w + j))"
    using not_less_Least by blast
  ultimately show ?thesis using that by blast
qed

lemma wait_None_iff:
  assumes "corr_id self = Some c" "response self = None"
  shows "wait self w = None \<longleftrightarrow> (\<forall>k. silent c (events w (polls w + k)))"
proof
  assume "wait self w = None"
  show "\<forall>k. silent c (events w (polls w + k))"
  proof (rule ccontr)
    assume "\<not> (\<forall>k. silent c (events w (polls w + k)))"
    then obtain n where "\<not> silent c (events w (polls w + n))" by blast
    then obtain k where "\<forall>j<k. silent c (events w (polls w + j))"
      "\<not> silent c (events w (polls w + k))" by (rule first_answer)
    with assms have "wait self w = Some (settle c self w k)" by (simp add: wait_settles)
    with \<open>wait self w = None\<close> show False by simp
  qed
next
  assume "\<forall>k. silent c (events w (polls w + k))"
  then show "wait self w = None"
    using wait_sound[OF _ assms, of w] by (cases "wait self w") auto
qed

lemma armed_fields [simp]:
  "corr_id (armed self w) = Some (uuid4 w (drawn w))" "response (armed self w) = None"
  "callback_queue (armed self w) = callback_queue self"
  by (simp_all add: armed_def)

lemma posted_fields [simp]:
  "events (posted dumps image_data self w) = events w"
  "polls (posted dumps image_data self w) = polls w"
  "drawn (posted dumps image_data self w) = Suc (drawn w)"
  "uuid4 (posted dumps image_data self w) = uuid4 w"
  "trace (posted dumps image_data self w) =
     trace w @ [BasicPublish (request dumps (armed self w) image_data)]"
  by (simp_all add: posted_def invoke_def usable_def wrong_state_def amqp_def Let_def
      split: option.splits)

lemma call_eq:
  "call dumps loads image_data self w =
     (case unsent dumps image_data self w of
        Some e \<Rightarrow> Some (Inl e, armed self w, posted dumps image_data self w)
      | None \<Rightarrow>
          (case wait (armed self w) (posted dumps image_data self w) of
             None \<Rightarrow> None
           | Some (Inl e, self3, w3) \<Rightarrow> Some (Inl e, self3, w3)
           | Some (Inr _, self3, w3) \<Rightarrow>
               (case response self3 of
                  None \<Rightarrow> Some (Inl (TypeError ''NoneType''), self3, w3)
                | Some b \<Rightarrow>
                    (case loads b of
                       None \<Rightarrow> Some (Inl JSONDecodeError, self3, w3)
                     | Some v \<Rightarrow> Some (Inr v, self3, w3)))))"
  by (simp add: call_def armed_def posted_def unsent_def invoke_def usable_def wrong_state_def
      amqp_def Let_def split: option.splits)

lemma call_None_iff:
  "call dumps loads image_data self w = None \<longleftrightarrow>
     unsent dumps image_data self w = None \<and>
     (\<forall>k. silent (uuid4 w (drawn w)) (events w (polls w + k)))"
proof -
  have "wait (armed self w) (posted dumps image_data self w) = None \<longleftrightarrow>
        (\<forall>k. silent (uuid4 w (drawn w)) (events w (polls w + k)))"
    using wait_None_iff[of "armed self w" "uuid4 w (drawn w)" "posted dumps image_data self w"]
    by simp
  then show ?thesis
    by (auto simp add: call_eq split: option.splits sum.splits)
qed

lemma call_run:
  assumes "unsent dumps image_data self w = None"
    and "\<forall>j<k. silent (uuid4 w (drawn w)) (events w (polls w + j))"
    and "\<not> silent (uuid4 w (drawn w)) (events w (polls w + k))"
  shows "call dumps loads image_data self w =
     Some (case events w (polls w + k) of
             Dropped e \<Rightarrow>
               (Inl e, armed self w, (posted dumps image_data self w)\<lparr>polls := Suc (polls w + k)\<rparr>)
           | Dispatch ds \<Rightarrow>
               (case loads (last (matching (uuid4 w (drawn w)) ds)) of
                  None \<Rightarrow> Inl JSONDecodeError
                | Some v \<Rightarrow> Inr v,
                (armed self w)\<lparr>response := Some (last (matching (uuid4 w (drawn w)) ds))\<rparr>,
                (posted dumps image_data self w)\<lparr>polls := Suc (polls w + k)\<rparr>))"
proof -
  have "wait (armed self w) (posted dumps image_data self w) =
      Some (settle (uuid4 w (drawn w)) (armed self w) (posted dumps image_data self w) k)"
    using assms(2,3) by (intro wait_settles) simp_all
  with assms(1) show ?thesis
    by (simp add: call_eq settle_def split: event.splits option.splits)
qed

lemma call_reply:
  assumes "call dumps loads image_data self w = Some (Inr v, self1, w1)"
  shows "\<exists>k ds b. (\<forall>j<k. silent (uuid4 w (drawn w)) (events w (polls w + j))) \<and>
           events w (polls w + k) = Dispatch ds \<and> matching (uuid4 w (drawn w)) ds \<noteq> [] \<and>
           b = last (matching (uuid4 w (drawn w)) ds) \<and>
           response self1 = Some b \<and> loads b = Some v"
proof -
  let ?c = "uuid4 w (drawn w)"
  from assms have ok: "unsent dumps image_data self w = None"
    by (auto simp add: call_eq split: option.splits)
  from assms have "call dumps loads image_data self w \<noteq> None" by simp
  then obtain n where "\<not> silent ?c (events w (polls w + n))"
    using ok by (auto simp add: call_None_iff)
  then obtain k where k: "\<forall>j<k. silent ?c (events w (polls w + j))"
      "\<not> silent ?c (events w (polls w + k))" by (rule first_answer)
  from call_run[OF ok k, of loads] assms k(2)
  have "\<exists>ds. events w (polls w + k) = Dispatch ds \<and> matching ?c ds \<noteq> [] \<and>
           response self1 = Some (last (matching ?c ds)) \<and>
           loads (last (matching ?c ds)) = Some v"
    by (auto split: event.splits option.splits)
  with k(1) show ?thesis by blast
qed

text \<open>
  C1. Whatever the polls dispatch while a call is outstanding, a value that \<open>call\<close> returns
  is the decoding of the body of a dispatched delivery whose correlation id is the one this
  call drew. A delivery with another correlation id leaves the client, and so its response
  slot, unchanged and raises nothing; so does a whole batch of such deliveries.
\<close>

theorem call_returns_only_matching_reply:
  "(call dumps loads image_data self w = Some (Inr v, self', w') \<longrightarrow>
      (\<exists>k ds p b. events w (polls w + k) = Dispatch ds \<and> (p, b) \<in> set ds \<and>
          correlation_id p = Some (uuid4 w (drawn w)) \<and>
          corr_id self' = Some (uuid4 w (drawn w)) \<and>
          response self' = Some b \<and> loads b = Some v))
   \<and> (corr_id client = Some c \<and> correlation_id p \<noteq> Some c \<longrightarrow>
        on_response client p b = (Inr (), client))
   \<and> (corr_id client = Some c \<and> (\<forall>(p, b)\<in>set ds. correlation_id p \<noteq> Some c) \<longrightarrow>
        dispatch client ds = (Inr (), client))"
proof (intro conjI impI)
  assume a: "call dumps loads image_data self w = Some (Inr v, self', w')"
  let ?c = "uuid4 w (drawn w)"
  from call_reply[OF a] obtain k ds b where
    r: "events w (polls w + k) = Dispatch ds" "matching ?c ds \<noteq> []"
       "b = last (matching ?c ds)" "response self' = Some b" "loads b = Some v"
       "\<forall>j<k. silent ?c (events w (polls w + j))"
    by blast
  then have "b \<in> set (matching ?c ds)" by simp
  then obtain p where p: "(p, b) \<in> set ds" "correlation_id p = Some ?c"
    by (auto simp add: matching_set)
  from r(1) have ns: "\<not> silent ?c (events w (polls w + k))" using r(2) by simp
  from a have ok: "unsent dumps image_data self w = None"
    by (auto simp add: call_eq split: option.splits)
  from call_run[OF ok r(6) ns, of loads] a r(1) have "corr_id self' = Some ?c"
    by (auto split: option.splits)
  with r p show "\<exists>k ds p b. events w (polls w + k) = Dispatch ds \<and> (p, b) \<in> set ds \<and>
          correlation_id p = Some ?c \<and> corr_id self' = Some ?c \<and>
          response self' = Some b \<and> loads b = Some v"
    by blast
next
  assume "corr_id client = Some c \<and> correlation_id p \<noteq> Some c"
  then show "on_response client p b = (Inr (), client)" by (simp add: on_response_foreign)
next
  assume a: "corr_id client = Some c \<and> (\<forall>(p, b)\<in>set ds. correlation_id p \<noteq> Some c)"
  then have "matching c ds = []"
    using matching_set[of _ c ds] by (cases "matching c ds") force+
  with a show "dispatch client ds = (Inr (), client)" by (simp add: dispatch_eq)
qed

lemma call_frame:
  assumes "call dumps loads image_data self w = Some (r, self', w')"
  shows "trace w' = trace w @ [BasicPublish (request dumps (armed self w) image_data)] \<and>
         drawn w' = Suc (drawn w) \<and> corr_id self' = Some (uuid4 w (drawn w)) \<and>
         callback_queue self' = callback_queue self"
proof (cases "unsent dumps image_data self w")
  case (Some e)
  with assms show ?thesis by (auto simp add: call_eq)
next
  case None
  let ?c = "uuid4 w (drawn w)"
  from assms have "call dumps loads image_data self w \<noteq> None" by simp
  then obtain n where "\<not> silent ?c (events w (polls w + n))"
    using None by (auto simp add: call_None_iff)
  then obtain k where k: "\<forall>j<k. silent ?c (events w (polls w + j))"
      "\<not> silent ?c (events w (polls w + k))" by (rule first_answer)
  from call_run[OF None k, of loads] assms show ?thesis
    by (auto split: event.splits option.splits)
qed

lemma OcrRpcClient_ok:
  assumes "OcrRpcClient w0 = (Inr self0, w2)"
  shows "callback_queue self0 = generated w0 \<and>
         (\<exists>q. queues w2 (callback_queue self0) = Some q \<and> exclusive q) \<and>
         trace w2 = trace w0 @
           [OpenChannel, QueueDeclare [] False False True, BasicConsume (generated w0)]"
  using assms
  by (auto simp add: OcrRpcClient_def and_then_def BlockingConnection_def invoke_def usable_def
      wrong_state_def amqp_def return_def Let_def split: if_splits option.splits)

lemma answering_run:
  "call id Some (JStr ''img'') fresh_client (answering reply) =
     Some (Inr reply,
           \<lparr>callback_queue = ''amq.gen-1'', response = Some reply,
            corr_id = Some ''uuid-''\<rparr>,
           (answering reply)\<lparr>
              queues := [''ocr_service'' \<mapsto>
                 \<lparr>durable = False, exclusive = False,
                  messages = [request id (armed fresh_client (answering reply))
                                (JStr ''img'')]\<rparr>],
              drawn := 1, polls := 2,
              trace := [BasicPublish (request id (armed fresh_client (answering reply))
                                        (JStr ''img''))]\<rparr>)"
proof -
  let ?w = "answering reply"
  have c: "uuid4 ?w (drawn ?w) = ''uuid-''" by (simp add: answering_def idle_def)
  have "unsent id (JStr ''img'') fresh_client ?w = None"
    by (simp add: unsent_def answering_def idle_def)
  moreover have "\<forall>j<1. silent (uuid4 ?w (drawn ?w)) (events ?w (polls ?w + j))"
    by (simp add: answering_def idle_def stale_def BasicProperties_def)
  moreover have "\<not> silent (uuid4 ?w (drawn ?w)) (events ?w (polls ?w + 1))"
    by (simp add: answering_def idle_def stale_def BasicProperties_def)
  ultimately have "call id Some (JStr ''img'') fresh_client ?w =
     Some (case events ?w (polls ?w + 1) of
             Dropped e \<Rightarrow>
               (Inl e, armed fresh_client ?w, (posted id (JStr ''img'') fresh_client ?w)\<lparr>polls := Suc (polls ?w + 1)\<rparr>)
           | Dispatch ds \<Rightarrow>
               (case Some (last (matching (uuid4 ?w (drawn ?w)) ds)) of
                  None \<Rightarrow> Inl JSONDecodeError
                | Some v \<Rightarrow> Inr v,
                (armed fresh_client ?w)\<lparr>response := Some (last (matching (uuid4 ?w (drawn ?w)) ds))\<rparr>,
                (posted id (JStr ''img'') fresh_client ?w)\<lparr>polls := Suc (polls ?w + 1)\<rparr>))"
    by (rule call_run)
  then show ?thesis
    by (simp add: c) (simp add: answering_def idle_def stale_def BasicProperties_def armed_def
        fresh_client_def posted_def invoke_def usable_def wrong_state_def amqp_def Let_def
        request_def)
qed

theorem call_returns_only_matching_reply_witness:
  "call id Some (JStr ''img'') fresh_client (answering (JStr ''text'')) =
     Some (Inr (JStr ''text''),
           \<lparr>callback_queue = ''amq.gen-1'', response = Some (JStr ''text''),
            corr_id = Some ''uuid-''\<rparr>,
           (answering (JStr ''text''))\<lparr>
              queues := [''ocr_service'' \<mapsto>
                 \<lparr>durable = False, exclusive = False,
                  messages = [request id (armed fresh_client (answering (JStr ''text'')))
                                (JStr ''img'')]\<rparr>],
              drawn := 1, polls := 2,
              trace := [BasicPublish (request id (armed fresh_client (answering (JStr ''text'')))
                                        (JStr ''img''))]\<rparr>)
   \<and> (\<exists>k ds p b. events (answering (JStr ''text'')) (polls (answering (JStr ''text'')) + k)
                      = Dispatch ds \<and> (p, b) \<in> set ds \<and>
          correlation_id p = Some ''uuid-'' \<and> b = JStr ''text'')
   \<and> on_response
        \<lparr>callback_queue = ''amq.gen-1'', response = None, corr_id = Some ''uuid-''\<rparr>
        (fst stale) (snd stale)
      = (Inr (), \<lparr>callback_queue = ''amq.gen-1'', response = None, corr_id = Some ''uuid-''\<rparr>)
   \<and> dispatch
        \<lparr>callback_queue = ''amq.gen-1'', response = None, corr_id = Some ''uuid-''\<rparr>
        [stale, stale]
      = (Inr (), \<lparr>callback_queue = ''amq.gen-1'', response = None, corr_id = Some ''uuid-''\<rparr>)"
proof -
  let ?w = "answering (JStr ''text'')"
  let ?self = "\<lparr>callback_queue = ''amq.gen-1'', response = None, corr_id = Some ''uuid-''\<rparr>
                 :: json client"
  note inst = call_returns_only_matching_reply
      [where dumps = id and loads = Some and image_data = "JStr ''img''"
         and self = fresh_client and w = ?w and v = "JStr ''text''" and client = ?self
         and self' = "\<lparr>callback_queue = ''amq.gen-1'', response = Some (JStr ''text''),
                       corr_id = Some ''uuid-''\<rparr>"
         and w' = "?w\<lparr>
              queues := [''ocr_service'' \<mapsto>
                 \<lparr>durable = False, exclusive = False,
                  messages = [request id (armed fresh_client ?w) (JStr ''img'')]\<rparr>],
              drawn := 1, polls := 2,
              trace := [BasicPublish (request id (armed fresh_client ?w) (JStr ''img''))]\<rparr>"
         and c = "''uuid-''" and p = "fst stale" and b = "snd stale"
         and ds = "[stale, stale]"]
  have c: "uuid4 ?w (drawn ?w) = ''uuid-''" by (simp add: answering_def idle_def)
  from inst answering_run[of "JStr ''text''"]
  have "\<exists>k ds p b. events ?w (polls ?w + k) = Dispatch ds \<and> (p, b) \<in> set ds \<and>
          correlation_id p = Some ''uuid-'' \<and> b = JStr ''text''"
    by (auto simp add: c)
  moreover have f: "corr_id ?self = Some ''uuid-'' \<and> correlation_id (fst stale) \<noteq> Some ''uuid-''"
    by (simp add: stale_def BasicProperties_def)
  with inst have "on_response ?self (fst stale) (snd stale) = (Inr (), ?self)" by blast
  moreover have "corr_id ?self = Some ''uuid-'' \<and>
       (\<forall>(p, b)\<in>set [stale, stale]. correlation_id p \<noteq> Some ''uuid-'')"
    by (simp add: stale_def BasicProperties_def)
  with inst have "dispatch ?self [stale, stale] = (Inr (), ?self)" by blast
  ultimately show ?thesis using answering_run[of "JStr ''text''"] by blast
qed

text \<open>
  C2, as stated, fails: when every poll dispatches a stale reply only, no matching reply
  ever arrives and \<open>call\<close> does not return \<open>TimedOut\<close>: it does not return.
\<close>

theorem call_never_times_out_counterexample:
  "call id Some (JStr ''img'') fresh_client unanswered = None"
  by (simp add: call_None_iff)
     (simp add: unsent_def unanswered_def idle_def stale_def BasicProperties_def)

text \<open>
  C2, amended. The wait has no bound. Once the request is published, \<open>call\<close> returns at
  the first poll that dispatches a matching reply or raises, after exactly that many polls;
  it fails to return exactly when the publish succeeds and every poll is silent.
\<close>

theorem call_blocks_until_reply:
  "(channel_open w \<and>
    faults w (BasicPublish (request dumps (armed self w) image_data)) = None \<and>
    (\<forall>j<k. silent (uuid4 w (drawn w)) (events w (polls w + j))) \<and>
    \<not> silent (uuid4 w (drawn w)) (events w (polls w + k)) \<longrightarrow>
      (\<exists>r self1 w1. call dumps loads image_data self w = Some (r, self1, w1) \<and>
                     polls w1 = Suc (polls w + k)))
   \<and> (call dumps loads image_data self w = None \<longleftrightarrow>
        channel_open w \<and>
        faults w (BasicPublish (request dumps (armed self w) image_data)) = None \<and>
        (\<forall>n. silent (uuid4 w (drawn w)) (events w (polls w + n))))"
proof (intro conjI impI)
  assume a: "channel_open w \<and>
    faults w (BasicPublish (request dumps (armed self w) image_data)) = None \<and>
    (\<forall>j<k. silent (uuid4 w (drawn w)) (events w (polls w + j))) \<and>
    \<not> silent (uuid4 w (drawn w)) (events w (polls w + k))"
  then have ok: "unsent dumps image_data self w = None"
    and q: "\<forall>j<k. silent (uuid4 w (drawn w)) (events w (polls w + j))"
    and ns: "\<not> silent (uuid4 w (drawn w)) (events w (polls w + k))"
    by (simp_all add: unsent_def)
  show "\<exists>r self1 w1. call dumps loads image_data self w = Some (r, self1, w1) \<and>
                     polls w1 = Suc (polls w + k)"
    unfolding call_run[OF ok q ns] by (cases "events w (polls w + k)") simp_all
next
  show "call dumps loads image_data self w = None \<longleftrightarrow>
        channel_open w \<and>
        faults w (BasicPublish (request dumps (armed self w) image_data)) = None \<and>
        (\<forall>n. silent (uuid4 w (drawn w)) (events w (polls w + n)))"
    using call_None_iff[of dumps loads image_data self w]
    by (auto simp add: unsent_def split: if_splits)
qed

theorem call_blocks_until_reply_witness:
  "(\<exists>r self1 w1. call id Some (JStr ''img'') fresh_client (answering (JStr ''text''))
                    = Some (r, self1, w1) \<and>
                  polls w1 = Suc (polls (answering (JStr ''text'')) + 1))
   \<and> (\<forall>n. silent (uuid4 unanswered (drawn unanswered))
              (events unanswered (polls unanswered + n)))
   \<and> call id Some (JStr ''img'') fresh_client unanswered = None"
proof -
  let ?w = "answering (JStr ''text'')"
  have "channel_open ?w \<and>
    faults ?w (BasicPublish (request id (armed fresh_client ?w) (JStr ''img''))) = None \<and>
    (\<forall>j<1. silent (uuid4 ?w (drawn ?w)) (events ?w (polls ?w + j))) \<and>
    \<not> silent (uuid4 ?w (drawn ?w)) (events ?w (polls ?w + 1))"
    by (simp add: answering_def idle_def stale_def BasicProperties_def)
  with call_blocks_until_reply[of ?w id fresh_client "JStr ''img''" 1 Some]
  have 1: "\<exists>r self1 w1. call id Some (JStr ''img'') fresh_client ?w = Some (r, self1, w1) \<and>
                  polls w1 = Suc (polls ?w + 1)"
    by blast
  have 2: "channel_open unanswered \<and>
     faults unanswered (BasicPublish (request id (armed fresh_client unanswered) (JStr ''img''))) = None \<and>
     (\<forall>n. silent (uuid4 unanswered (drawn unanswered))
              (events unanswered (polls unanswered + n)))"
    by (simp add: unanswered_def idle_def stale_def BasicProperties_def)
  with call_blocks_until_reply[of unanswered id fresh_client "JStr ''img''" 0 Some]
  have "call id Some (JStr ''img'') fresh_client unanswered = None" by blast
  with 1 2 show ?thesis by blast
qed

text \<open>
  C9. Every returning \<open>call\<close> hands exactly one message to \<open>basic_publish\<close>: default
  exchange, routing key \<open>ocr_service\<close>, body \<open>dumps {'image_data': image_data}\<close>, reply-to
  the client's callback queue and as correlation id the identifier drawn from \<open>uuid4\<close> in
  this call (the next call draws the next one). A returned value is \<open>loads\<close> of the response
  slot, which holds the body of a dispatched delivery with that correlation id. The callback
  queue of a client that \<open>__init__\<close> built is the name the broker generated for the queue
  declared with the empty name, and that queue is exclusive.
\<close>

theorem call_request_and_reply:
  "(call dumps loads image_data self w = Some (r, self', w') \<longrightarrow>
      publishes (trace w') = publishes (trace w) @
        [\<lparr>exchange = [], routing_key = ''ocr_service'',
          props = \<lparr>reply_to = Some (callback_queue self),
                    correlation_id = Some (uuid4 w (drawn w)), delivery_mode = None\<rparr>,
          body = dumps (JObj [(''image_data'', image_data)])\<rparr>] \<and>
      drawn w' = Suc (drawn w) \<and> corr_id self' = Some (uuid4 w (drawn w)) \<and>
      (\<forall>v. r = Inr v \<longrightarrow>
         (\<exists>k ds p b. events w (polls w + k) = Dispatch ds \<and> (p, b) \<in> set ds \<and>
            correlation_id p = Some (uuid4 w (drawn w)) \<and>
            response self' = Some b \<and> loads b = Some v)))
   \<and> (OcrRpcClient w0 = (Inr client, w2) \<longrightarrow>
        callback_queue client = generated w0 \<and>
        (\<exists>q. queues w2 (callback_queue client) = Some q \<and> exclusive q) \<and>
        trace w2 = trace w0 @
          [OpenChannel, QueueDeclare [] False False True, BasicConsume (generated w0)])"
proof (intro conjI impI allI)
  assume a: "call dumps loads image_data self w = Some (r, self', w')"
  from call_frame[OF a]
  show "publishes (trace w') = publishes (trace w) @
        [\<lparr>exchange = [], routing_key = ''ocr_service'',
          props = \<lparr>reply_to = Some (callback_queue self),
                    correlation_id = Some (uuid4 w (drawn w)), delivery_mode = None\<rparr>,
          body = dumps (JObj [(''image_data'', image_data)])\<rparr>]"
    by (simp add: request_def BasicProperties_def)
  from call_frame[OF a] show "drawn w' = Suc (drawn w)" by simp
  from call_frame[OF a] show "corr_id self' = Some (uuid4 w (drawn w))" by simp
  fix v
  assume "r = Inr v"
  with a have b: "call dumps loads image_data self w = Some (Inr v, self', w')" by simp
  let ?c = "uuid4 w (drawn w)"
  from call_reply[OF b] obtain k ds b where
    r: "events w (polls w + k) = Dispatch ds" "matching ?c ds \<noteq> []"
       "b = last (matching ?c ds)" "response self' = Some b" "loads b = Some v"
    by blast
  then have "b \<in> set (matching ?c ds)" by simp
  then obtain p where "(p, b) \<in> set ds" "correlation_id p = Some ?c"
    by (auto simp add: matching_set)
  with r show "\<exists>k ds p b. events w (polls w + k) = Dispatch ds \<and> (p, b) \<in> set ds \<and>
            correlation_id p = Some ?c \<and> response self' = Some b \<and> loads b = Some v"
    by blast
next
  assume a: "OcrRpcClient w0 = (Inr client, w2)"
  from OcrRpcClient_ok[OF a] show "callback_queue client = generated w0" by blast
  from OcrRpcClient_ok[OF a] show "\<exists>q. queues w2 (callback_queue client) = Some q \<and> exclusive q"
    by blast
  from OcrRpcClient_ok[OF a] show "trace w2 = trace w0 @
          [OpenChannel, QueueDeclare [] False False True, BasicConsume (generated w0)]"
    by blast
qed

lemma idle_client:
  "OcrRpcClient (idle :: json world) =
     (Inr fresh_client,
      idle\<lparr>queues := [''amq.gen-1'' \<mapsto> \<lparr>durable = False, exclusive = True, messages = []\<rparr>],
           connection_open := True, channel_open := True, tries := 1,
           trace := [OpenChannel, QueueDeclare [] False False True,
                     BasicConsume ''amq.gen-1'']\<rparr>)"
  by (simp add: OcrRpcClient_def and_then_def BlockingConnection_def invoke_def usable_def
      wrong_state_def amqp_def return_def Let_def idle_def fresh_client_def)

theorem call_request_and_reply_witness:
  "call id Some (JStr ''img'') fresh_client (answering (JStr ''text'')) =
     Some (Inr (JStr ''text''),
           \<lparr>callback_queue = ''amq.gen-1'', response = Some (JStr ''text''),
            corr_id = Some ''uuid-''\<rparr>,
           (answering (JStr ''text''))\<lparr>
              queues := [''ocr_service'' \<mapsto>
                 \<lparr>durable = False, exclusive = False,
                  messages = [request id (armed fresh_client (answering (JStr ''text'')))
                                (JStr ''img'')]\<rparr>],
              drawn := 1, polls := 2,
              trace := [BasicPublish (request id (armed fresh_client (answering (JStr ''text'')))
                                        (JStr ''img''))]\<rparr>)
   \<and> publishes [BasicPublish (request id (armed fresh_client (answering (JStr ''text'')))
                                (JStr ''img''))] =
       [\<lparr>exchange = [], routing_key = ''ocr_service'',
         props = \<lparr>reply_to = Some ''amq.gen-1'', correlation_id = Some ''uuid-'',
                   delivery_mode = None\<rparr>,
         body = JObj [(''image_data'', JStr ''img'')]\<rparr>]
   \<and> OcrRpcClient (idle :: json world) =
       (Inr fresh_client,
        idle\<lparr>queues := [''amq.gen-1'' \<mapsto> \<lparr>durable = False, exclusive = True, messages = []\<rparr>],
           connection_open := True, channel_open := True, tries := 1,
           trace := [OpenChannel, QueueDeclare [] False False True,
                     BasicConsume ''amq.gen-1'']\<rparr>)
   \<and> callback_queue (fresh_client :: json client) = generated (idle :: json world)"
proof -
  let ?w = "answering (JStr ''text'')"
  let ?w' = "?w\<lparr>
              queues := [''ocr_service'' \<mapsto>
                 \<lparr>durable = False, exclusive = False,
                  messages = [request id (armed fresh_client ?w) (JStr ''img'')]\<rparr>],
              drawn := 1, polls := 2,
              trace := [BasicPublish (request id (armed fresh_client ?w) (JStr ''img''))]\<rparr>"
  let ?w2 = "(idle :: json world)\<lparr>queues := [''amq.gen-1'' \<mapsto>
                 \<lparr>durable = False, exclusive = True, messages = []\<rparr>],
           connection_open := True, channel_open := True, tries := 1,
           trace := [OpenChannel, QueueDeclare [] False False True,
                     BasicConsume ''amq.gen-1'']\<rparr>"
  note inst = call_request_and_reply
      [where dumps = id and loads = Some and image_data = "JStr ''img''"
         and self = fresh_client and w = ?w and r = "Inr (JStr ''text'')"
         and self' = "\<lparr>callback_queue = ''amq.gen-1'', response = Some (JStr ''text''),
                       corr_id = Some ''uuid-''\<rparr>"
         and w' = ?w' and ?w0.0 = "idle :: json world" and client = fresh_client
         and ?w2.0 = ?w2]
  have t: "trace ?w = []" "uuid4 ?w (drawn ?w) = ''uuid-''"
    "callback_queue (fresh_client :: json client) = ''amq.gen-1''"
    by (simp_all add: answering_def idle_def fresh_client_def)
  from inst answering_run[of "JStr ''text''"]
  have "publishes (trace ?w') = publishes (trace ?w) @
        [\<lparr>exchange = [], routing_key = ''ocr_service'',
          props = \<lparr>reply_to = Some (callback_queue (fresh_client :: json client)),
                    correlation_id = Some (uuid4 ?w (drawn ?w)), delivery_mode = None\<rparr>,
          body = id (JObj [(''image_data'', JStr ''img'')])\<rparr>]"
    by blast
  then have 1: "publishes [BasicPublish (request id (armed fresh_client ?w) (JStr ''img''))] =
       [\<lparr>exchange = [], routing_key = ''ocr_service'',
         props = \<lparr>reply_to = Some ''amq.gen-1'', correlation_id = Some ''uuid-'',
                   delivery_mode = None\<rparr>,
         body = JObj [(''image_data'', JStr ''img'')]\<rparr>]"
    by (simp add: t)
  from inst idle_client
  have 2: "callback_queue (fresh_client :: json client) = generated (idle :: json world)"
    by blast
  from 1 2 answering_run[of "JStr ''text''"] idle_client show ?thesis by blast
qed

section \<open>The round trip\<close>

lemma dict_set_fresh: "k \<notin> fst ` set d \<Longrightarrow> dict_set k v d = d @ [(k, v)]"
  by (induction d) auto

lemma foldl_dict_set:
  "distinct (map fst (d @ pairs)) \<Longrightarrow>
   foldl (\<lambda>d (k, v). dict_set k v d) d pairs = d @ pairs"
proof (induction pairs arbitrary: d)
  case Nil
  then show ?case by simp
next
  case (Cons kv pairs)
  obtain k v where kv: "kv = (k, v)" by (cases kv)
  from Cons.prems kv have "k \<notin> fst ` set d" by auto
  then have s: "dict_set k v d = d @ [(k, v)]" by (rule dict_set_fresh)
  from Cons.prems kv have "distinct (map fst ((d @ [(k, v)]) @ pairs))" by simp
  from Cons.IH[OF this] s kv show ?case by simp
qed

lemma dict_distinct: "distinct (map fst pairs) \<Longrightarrow> dict pairs = pairs"
  using foldl_dict_set[of "[]" pairs] by (simp add: dict_def)

lemma loads_dumps_native: "native P \<Longrightarrow> loads_document (json_dumps P) = P"
proof (induction P)
  case (JArr xs)
  then have "map (loads_document \<circ> json_dumps) xs = xs"
    by (intro map_idI) (auto simp add: list_all_iff)
  then show ?case by simp
next
  case (JObj items)
  have "map (map_prod id loads_document \<circ> map_prod id json_dumps) items = items"
  proof (rule map_idI)
    fix kv
    assume m: "kv \<in> set items"
    obtain k v where kv: "kv = (k, v)" by (cases kv)
    with m JObj.prems have "native v" by (auto simp add: list_all_iff)
    with JObj.IH[of kv v] m kv have "loads_document (json_dumps v) = v" by simp
    with kv show "(map_prod id loads_document \<circ> map_prod id json_dumps) kv = kv" by simp
  qed
  moreover from JObj.prems have "distinct (map fst items)" by simp
  ultimately show ?case by (simp add: dict_distinct)
qed simp_all

lemma stub_reply:
  assumes "native P"
  shows "stub_worker json_dumps json_loads (request json_dumps (armed self w) P) =
           Some (callback_queue self,
                 BasicProperties\<lparr>correlation_id := Some (uuid4 w (drawn w))\<rparr>,
                 json_dumps P)"
  using assms
  by (simp add: stub_worker_def request_def json_loads_def dict_def loads_dumps_native
      BasicProperties_def)

text \<open>
  C5, as stated, fails: for the payload \<open>(1, 2)\<close>, a tuple, the stub worker echoes the
  payload of the published request, the client receives that reply, and \<open>call\<close> returns
  the list \<open>[1, 2]\<close>, which is not the payload.
\<close>

theorem call_round_trip_counterexample:
  "stub_worker json_dumps json_loads (request json_dumps (armed fresh_client serving) pair) =
     Some (''amq.gen-1'', BasicProperties\<lparr>correlation_id := Some ''uuid-''\<rparr>,
           DArr [DNum 1, DNum 2])
   \<and> events (echoing pair) 1 =
       Dispatch [foreign, (BasicProperties\<lparr>correlation_id := Some ''uuid-''\<rparr>,
                           DArr [DNum 1, DNum 2]), foreign]
   \<and> map_option fst (call json_dumps json_loads pair fresh_client (echoing pair)) =
       Some (Inr (JArr [JInt 1, JInt 2]))
   \<and> JArr [JInt 1, JInt 2] \<noteq> pair"
proof -
  let ?w = "echoing pair"
  have s: "stub_worker json_dumps json_loads (request json_dumps (armed fresh_client serving) pair) =
     Some (''amq.gen-1'', BasicProperties\<lparr>correlation_id := Some ''uuid-''\<rparr>,
           DArr [DNum 1, DNum 2])"
    by (simp add: stub_worker_def request_def json_loads_def dict_def pair_def armed_def
        fresh_client_def serving_def idle_def BasicProperties_def)
  then have e: "events ?w 1 =
       Dispatch [foreign, (BasicProperties\<lparr>correlation_id := Some ''uuid-''\<rparr>,
                           DArr [DNum 1, DNum 2]), foreign]"
    by (simp add: echoing_def)
  have c: "uuid4 ?w (drawn ?w) = ''uuid-''" "polls ?w = 0"
    by (simp_all add: echoing_def serving_def idle_def)
  have "unsent json_dumps pair fresh_client ?w = None"
    by (simp add: unsent_def echoing_def serving_def idle_def)
  moreover have "\<forall>j<1. silent (uuid4 ?w (drawn ?w)) (events ?w (polls ?w + j))"
    by (simp add: c) (simp add: echoing_def foreign_def BasicProperties_def)
  moreover have "\<not> silent (uuid4 ?w (drawn ?w)) (events ?w (polls ?w + 1))"
    unfolding c using e by (simp add: foreign_def BasicProperties_def)
  ultimately have "call json_dumps json_loads pair fresh_client ?w =
      Some (case events ?w (polls ?w + 1) of
             Dropped e \<Rightarrow>
               (Inl e, armed fresh_client ?w,
                (posted json_dumps pair fresh_client ?w)\<lparr>polls := Suc (polls ?w + 1)\<rparr>)
           | Dispatch ds \<Rightarrow>
               (case json_loads (last (matching (uuid4 ?w (drawn ?w)) ds)) of
                  None \<Rightarrow> Inl JSONDecodeError
                | Some v \<Rightarrow> Inr v,
                (armed fresh_client ?w)\<lparr>response := Some (last (matching (uuid4 ?w (drawn ?w)) ds))\<rparr>,
                (posted json_dumps pair fresh_client ?w)\<lparr>polls := Suc (polls ?w + 1)\<rparr>))"
    by (rule call_run)
  then have "map_option fst (call json_dumps json_loads pair fresh_client ?w) =
       Some (Inr (JArr [JInt 1, JInt 2]))"
    unfolding c using e by (simp add: foreign_def BasicProperties_def json_loads_def)
  with s e show ?thesis by (simp add: pair_def)
qed

text \<open>
  C5, amended. For every payload \<open>P\<close> that the codec gives back as it was (no tuple, no
  repeated key), the stub worker answers the request of \<open>call P\<close> on the client's callback
  queue with the request's correlation id and the encoding of \<open>P\<close>; and when the first poll
  that is not silent dispatches that reply, every other delivery of the batch with the same
  correlation id having the same body, \<open>call P\<close> returns \<open>P\<close>, that request being the one
  message it published.
\<close>

theorem call_round_trip:
  assumes "native P"
    and "channel_open w"
    and "faults w (BasicPublish (request json_dumps (armed self w) P)) = None"
  shows "stub_worker json_dumps json_loads (request json_dumps (armed self w) P) =
           Some (callback_queue self,
                 BasicProperties\<lparr>correlation_id := Some (uuid4 w (drawn w))\<rparr>,
                 json_dumps P)
         \<and> ((\<forall>j<k. silent (uuid4 w (drawn w)) (events w (polls w + j))) \<and>
            events w (polls w + k) = Dispatch ds \<and>
            (BasicProperties\<lparr>correlation_id := Some (uuid4 w (drawn w))\<rparr>, json_dumps P)
              \<in> set ds \<and>
            (\<forall>(p, b)\<in>set ds. correlation_id p = Some (uuid4 w (drawn w)) \<longrightarrow>
                               b = json_dumps P) \<longrightarrow>
              (\<exists>self' w'. call json_dumps json_loads P self w = Some (Inr P, self', w') \<and>
                           publishes (trace w') =
                             publishes (trace w) @
                             [request json_dumps (armed self w) P]))"
proof (rule conjI)
  show "stub_worker json_dumps json_loads (request json_dumps (armed self w) P) =
           Some (callback_queue self,
                 BasicProperties\<lparr>correlation_id := Some (uuid4 w (drawn w))\<rparr>,
                 json_dumps P)"
    using assms(1) by (rule stub_reply)
next
  let ?c = "uuid4 w (drawn w)"
  let ?m = "request json_dumps (armed self w) P"
  let ?p = "BasicProperties\<lparr>correlation_id := Some ?c\<rparr>"
  have u: "unsent json_dumps P self w = None" using assms(2,3) by (simp add: unsent_def)
  show "(\<forall>j<k. silent ?c (events w (polls w + j))) \<and>
            events w (polls w + k) = Dispatch ds \<and> (?p, json_dumps P) \<in> set ds \<and>
            (\<forall>(p, b)\<in>set ds. correlation_id p = Some ?c \<longrightarrow> b = json_dumps P) \<longrightarrow>
              (\<exists>self' w'. call json_dumps json_loads P self w = Some (Inr P, self', w') \<and>
                           publishes (trace w') = publishes (trace w) @ [?m])"
  proof (rule impI)
    assume h: "(\<forall>j<k. silent ?c (events w (polls w + j))) \<and>
            events w (polls w + k) = Dispatch ds \<and> (?p, json_dumps P) \<in> set ds \<and>
            (\<forall>(p, b)\<in>set ds. correlation_id p = Some ?c \<longrightarrow> b = json_dumps P)"
    then have q: "\<forall>j<k. silent ?c (events w (polls w + j))"
      and e: "events w (polls w + k) = Dispatch ds"
      and d: "(?p, json_dumps P) \<in> set ds"
      and o: "\<forall>(p, b)\<in>set ds. correlation_id p = Some ?c \<longrightarrow> b = json_dumps P"
      by blast+
    from d have "json_dumps P \<in> set (matching ?c ds)"
      by (auto simp add: matching_set BasicProperties_def)
    then have ne: "matching ?c ds \<noteq> []" by auto
    then have "last (matching ?c ds) \<in> set (matching ?c ds)" by simp
    then have l: "last (matching ?c ds) = json_dumps P" using o by (auto simp add: matching_set)
    from ne e have ns: "\<not> silent ?c (events w (polls w + k))" by simp
    have "call json_dumps json_loads P self w =
        Some (Inr P, (armed self w)\<lparr>response := Some (json_dumps P)\<rparr>,
              (posted json_dumps P self w)\<lparr>polls := Suc (polls w + k)\<rparr>)"
      unfolding call_run[OF u q ns]
      by (simp add: e l json_loads_def loads_dumps_native[OF assms(1)])
    then show "\<exists>self' w'. call json_dumps json_loads P self w = Some (Inr P, self', w') \<and>
                           publishes (trace w') = publishes (trace w) @ [?m]"
      by simp
  qed
qed

theorem call_round_trip_witness:
  "native upload
   \<and> channel_open (echoing upload)
   \<and> faults (echoing upload)
        (BasicPublish (request json_dumps (armed fresh_client (echoing upload)) upload)) = None
   \<and> stub_worker json_dumps json_loads
        (request json_dumps (armed fresh_client (echoing upload)) upload) =
       Some (''amq.gen-1'', BasicProperties\<lparr>correlation_id := Some ''uuid-''\<rparr>,
             json_dumps upload)
   \<and> events (echoing upload) 1 =
       Dispatch [foreign, (BasicProperties\<lparr>correlation_id := Some ''uuid-''\<rparr>,
                           json_dumps upload), foreign]
   \<and> (\<exists>self' w'. call json_dumps json_loads upload fresh_client (echoing upload) =
                    Some (Inr upload, self', w') \<and>
                  publishes (trace w') =
                    publishes (trace (echoing upload)) @
                    [request json_dumps (armed fresh_client (echoing upload)) upload])"
proof -
  let ?w = "echoing upload"
  let ?p = "BasicProperties\<lparr>correlation_id := Some ''uuid-''\<rparr>"
  let ?ds = "[foreign, (?p, json_dumps upload), foreign]"
  have n: "native upload" by (simp add: upload_def)
  have a: "armed fresh_client ?w = armed fresh_client serving"
    by (simp add: armed_def echoing_def)
  have c: "uuid4 ?w (drawn ?w) = ''uuid-''" "polls ?w = 0"
    "callback_queue (fresh_client :: document client) = ''amq.gen-1''"
    by (simp_all add: echoing_def serving_def idle_def fresh_client_def)
  have o: "channel_open ?w"
    "faults ?w (BasicPublish (request json_dumps (armed fresh_client ?w) upload)) = None"
    by (simp_all add: echoing_def serving_def idle_def)
  note inst = call_round_trip[OF n o, of 1 ?ds, unfolded c]
  from inst have s: "stub_worker json_dumps json_loads
        (request json_dumps (armed fresh_client ?w) upload) =
       Some (''amq.gen-1'', ?p, json_dumps upload)"
    by blast
  note s0 = s[unfolded a]
  have e: "events ?w 1 = Dispatch ?ds" by (simp add: echoing_def s0)
  have "\<forall>j<1. silent ''uuid-'' (events ?w (0 + j))"
    by (simp add: echoing_def foreign_def BasicProperties_def)
  moreover have "events ?w (0 + 1) = Dispatch ?ds" using e by simp
  moreover have "(?p, json_dumps upload) \<in> set ?ds" by simp
  moreover have "\<forall>(p, b)\<in>set ?ds. correlation_id p = Some ''uuid-'' \<longrightarrow>
                               b = json_dumps upload"
    by (simp add: foreign_def BasicProperties_def)
  ultimately have "\<exists>self' w'. call json_dumps json_loads upload fresh_client ?w =
                    Some (Inr upload, self', w') \<and>
                  publishes (trace w') =
                    publishes (trace ?w) @
                    [request json_dumps (armed fresh_client ?w) upload]"
    using inst by blast
  with n o s e show ?thesis by blast
qed

end
